theory Spec2Isabelle
  imports Main "HOL-Library.Log_Nat"
begin

section \<open>LuaNLopt: the Lua adapter to NLopt, as a shallow embedding\<close>

text \<open>
  The adapter (LuaNLopt.cpp) sits between two external collaborators: the Lua 5.1 C API
  and the NLopt C library. Both are modelled here as far as the adapter uses them, from
  their reference manuals; the adapter's own functions are then translated line by line
  on top of that model, with the same Lua stack discipline as the source.
\<close>

subsection \<open>Numbers\<close>

text \<open>
  A \<open>double\<close> is kept as its three IEEE-754 binary64 fields (sign, biased exponent,
  fraction). Two doubles are bit-identical exactly when they are equal as values of this
  type. The adapter never computes with doubles: it only moves them, converts C integers
  to them (\<open>lua_pushinteger\<close>) and back (\<open>lua_tointeger\<close>).
\<close>

datatype double = Double (sign: bool) (expo: nat) (frac: nat)

definition zero_double :: double where
  "zero_double = Double False 0 0"

definition is_nan :: "double \<Rightarrow> bool" where
  "is_nan d = (expo d = 2047 \<and> frac d \<noteq> 0)"

definition is_zero :: "double \<Rightarrow> bool" where
  "is_zero d = (expo d = 0 \<and> frac d = 0)"

definition luai_numeq :: "double \<Rightarrow> double \<Rightarrow> bool" where
  "luai_numeq a b = (\<not> is_nan a \<and> \<not> is_nan b \<and> (a = b \<or> (is_zero a \<and> is_zero b)))"

definition round_half_even :: "nat \<Rightarrow> nat \<Rightarrow> nat" where
  "round_half_even a s =
     (let q = a div 2 ^ s; r = a mod 2 ^ s; h = 2 ^ (s - 1)
      in if r > h \<or> (r = h \<and> odd q) then q + 1 else q)"

definition cast_num :: "int \<Rightarrow> double" where
  \<comment> \<open>C conversion of an integer to double, round to nearest even.\<close>
  "cast_num k =
     (if k = 0 then zero_double
      else let a = nat \<bar>k\<bar>;
               e = floorlog 2 a - 1;
               m = (if e \<le> 52 then a * 2 ^ (52 - e) else round_half_even a (e - 52))
           in if m \<ge> 2 ^ 53 then Double (k < 0) (1024 + e) 0
              else Double (k < 0) (1023 + e) (m - 2 ^ 52))"

definition double_to_int :: "nat \<Rightarrow> double \<Rightarrow> int" where
  \<comment> \<open>C conversion of a double to a signed integer of \<open>w\<close> bits: truncation toward zero;
      a value that does not fit (or NaN, infinity) gives the most negative integer, as the
      x86 conversion instruction does (the C standard leaves it undefined).\<close>
  "double_to_int w d =
     (if expo d = 2047 then - (2 ^ (w - 1))
      else if expo d < 1023 then 0
      else let mag = (if expo d \<le> 1075 then (2 ^ 52 + frac d) div 2 ^ (1075 - expo d)
                      else (2 ^ 52 + frac d) * 2 ^ (expo d - 1075));
               v = (if sign d then - int mag else int mag)
           in if - (2 ^ (w - 1)) \<le> v \<and> v < 2 ^ (w - 1) then v else - (2 ^ (w - 1)))"

definition lua_Integer_bits :: nat where
  \<comment> \<open>\<open>lua_Integer\<close> is \<open>ptrdiff_t\<close>, of 64 bits on a 64-bit target.\<close>
  "lua_Integer_bits = 64"


definition lua_number2integer :: "double \<Rightarrow> int" where
  "lua_number2integer d = double_to_int lua_Integer_bits d"

definition lua_number2int :: "double \<Rightarrow> int" where
  "lua_number2int d = double_to_int 32 d"

definition INT_MAX :: int where
  "INT_MAX = 2 ^ 31 - 1"

subsection \<open>Lua values, tables and the state\<close>

datatype lvalue =
    LNil
  | LBoolean bool
  | LNumber double
  | LString string
  | LTable nat
  | LFunction nat
  | LUserdata nat

text \<open>
  A table maps keys to values, \<open>LNil\<close> standing for an absent entry. As in Lua's own
  table code (\<open>luaH_get\<close>), a number key with an integer value is the integer key.
  Metatables of tables are not modelled, so \<open>lua_gettable\<close> on a table is a raw access.
\<close>

datatype lkey = KInt int | KStr string | KOther lvalue

type_synonym ltable = "lkey \<Rightarrow> lvalue"

definition key_of :: "lvalue \<Rightarrow> lkey" where
  "key_of v =
     (case v of
        LNumber d \<Rightarrow>
          (let k = lua_number2int d
           in if luai_numeq (cast_num k) d then KInt k else KOther v)
      | LString s \<Rightarrow> KStr s
      | _ \<Rightarrow> KOther v)"

definition empty_table :: ltable where
  "empty_table = (\<lambda>k. LNil)"

text \<open>
  A full userdata block of the adapter holds one \<open>nlopt_opt_holder\<close>: the pointer
  \<open>d_obj\<close> to the native optimizer (\<open>None\<close> is NULL), together with its metatable.
\<close>

record nlopt_opt_holder =
  d_obj :: "nat option"

record userdata =
  block :: nlopt_opt_holder
  metatable :: lvalue

text \<open>
  The heap is what host code can change: the tables (the registry is the table at address
  \<open>registry_addr\<close>), the userdata blocks, and the bookkeeping of \<open>luaL_ref\<close>:
  the released references that can be issued again and the highest reference issued.
\<close>

record lua_heap =
  tables :: "nat \<Rightarrow> ltable"
  ntables :: nat
  udata :: "nat \<Rightarrow> userdata"
  nudata :: nat
  reg_free :: "int list"
  reg_len :: int

text \<open>
  A host function receives its arguments and the heap; it returns values or raises an
  error value, and leaves a heap behind in both cases.
\<close>

datatype call_result =
    Returns "lvalue list" lua_heap
  | Raises lvalue lua_heap

type_synonym hostfun = "lvalue list \<Rightarrow> lua_heap \<Rightarrow> call_result"

record lua_State =
  stack :: "lvalue list"
  heap :: lua_heap
  funs :: "nat \<Rightarrow> hostfun"
  str2d :: "string \<Rightarrow> double option"

subsection \<open>The Lua C API, as far as the adapter calls it\<close>

text \<open>
  The stack of the running C function is a list, index 1 first and the top last.
  \<open>index2adr\<close> gives \<open>None\<close> for an index that holds no value (Lua's \<open>LUA_TNONE\<close>).
\<close>

definition LUA_REGISTRYINDEX :: int where
  "LUA_REGISTRYINDEX = - 10000"

definition registry_addr :: nat where
  "registry_addr = 0"

definition index2adr :: "lua_State \<Rightarrow> int \<Rightarrow> lvalue option" where
  "index2adr L idx =
     (if idx > 0 then
        (if nat idx \<le> length (stack L) then Some (stack L ! (nat idx - 1)) else None)
      else if idx > LUA_REGISTRYINDEX then
        (if idx < 0 \<and> nat (- idx) \<le> length (stack L)
         then Some (stack L ! (length (stack L) - nat (- idx))) else None)
      else if idx = LUA_REGISTRYINDEX then Some (LTable registry_addr)
      else None)"

definition index2val :: "lua_State \<Rightarrow> int \<Rightarrow> lvalue" where
  "index2val L idx = (case index2adr L idx of None \<Rightarrow> LNil | Some v \<Rightarrow> v)"

datatype ltype =
    LUA_TNONE | LUA_TNIL | LUA_TBOOLEAN | LUA_TNUMBER | LUA_TSTRING
  | LUA_TTABLE | LUA_TFUNCTION | LUA_TUSERDATA

fun ttype :: "lvalue \<Rightarrow> ltype" where
  "ttype LNil = LUA_TNIL"
| "ttype (LBoolean b) = LUA_TBOOLEAN"
| "ttype (LNumber d) = LUA_TNUMBER"
| "ttype (LString s) = LUA_TSTRING"
| "ttype (LTable a) = LUA_TTABLE"
| "ttype (LFunction f) = LUA_TFUNCTION"
| "ttype (LUserdata u) = LUA_TUSERDATA"

definition lua_type :: "lua_State \<Rightarrow> int \<Rightarrow> ltype" where
  "lua_type L idx = (case index2adr L idx of None \<Rightarrow> LUA_TNONE | Some v \<Rightarrow> ttype v)"

definition lua_isnil :: "lua_State \<Rightarrow> int \<Rightarrow> bool" where
  "lua_isnil L idx = (lua_type L idx = LUA_TNIL)"

definition lua_istable :: "lua_State \<Rightarrow> int \<Rightarrow> bool" where
  "lua_istable L idx = (lua_type L idx = LUA_TTABLE)"

definition lua_isfunction :: "lua_State \<Rightarrow> int \<Rightarrow> bool" where
  "lua_isfunction L idx = (lua_type L idx = LUA_TFUNCTION)"

definition lua_gettop :: "lua_State \<Rightarrow> int" where
  "lua_gettop L = int (length (stack L))"

definition push :: "lua_State \<Rightarrow> lvalue \<Rightarrow> lua_State" where
  "push L v = L\<lparr>stack := stack L @ [v]\<rparr>"

definition lua_pop :: "lua_State \<Rightarrow> nat \<Rightarrow> lua_State" where
  "lua_pop L n = L\<lparr>stack := take (length (stack L) - n) (stack L)\<rparr>"

definition lua_pushnil :: "lua_State \<Rightarrow> lua_State" where
  "lua_pushnil L = push L LNil"

definition lua_pushnumber :: "lua_State \<Rightarrow> double \<Rightarrow> lua_State" where
  "lua_pushnumber L d = push L (LNumber d)"

definition lua_pushinteger :: "lua_State \<Rightarrow> int \<Rightarrow> lua_State" where
  "lua_pushinteger L k = push L (LNumber (cast_num k))"

definition lua_pushliteral :: "lua_State \<Rightarrow> string \<Rightarrow> lua_State" where
  "lua_pushliteral L s = push L (LString s)"

definition lua_pushvalue :: "lua_State \<Rightarrow> int \<Rightarrow> lua_State" where
  "lua_pushvalue L idx = push L (index2val L idx)"

definition luaV_tonumber :: "lua_State \<Rightarrow> lvalue \<Rightarrow> double option" where
  \<comment> \<open>A number, or a string that the runtime can read as a number.\<close>
  "luaV_tonumber L v =
     (case v of LNumber d \<Rightarrow> Some d | LString s \<Rightarrow> str2d L s | _ \<Rightarrow> None)"

definition lua_tonumber :: "lua_State \<Rightarrow> int \<Rightarrow> double" where
  "lua_tonumber L idx =
     (case luaV_tonumber L (index2val L idx) of Some d \<Rightarrow> d | None \<Rightarrow> zero_double)"

definition lua_isnumber :: "lua_State \<Rightarrow> int \<Rightarrow> bool" where
  "lua_isnumber L idx = (luaV_tonumber L (index2val L idx) \<noteq> None)"

definition lua_tointeger :: "lua_State \<Rightarrow> int \<Rightarrow> int" where
  "lua_tointeger L idx =
     (case luaV_tonumber L (index2val L idx) of
        Some d \<Rightarrow> lua_number2integer d | None \<Rightarrow> 0)"

text \<open>Table access. A raw access through a value that is not a table reads \<open>LNil\<close>
  and writes nothing (the C API only asserts that it is a table).\<close>

definition table_get :: "lua_heap \<Rightarrow> lvalue \<Rightarrow> lkey \<Rightarrow> lvalue" where
  "table_get h t k = (case t of LTable a \<Rightarrow> tables h a k | _ \<Rightarrow> LNil)"

definition table_set :: "lua_heap \<Rightarrow> lvalue \<Rightarrow> lkey \<Rightarrow> lvalue \<Rightarrow> lua_heap" where
  "table_set h t k v =
     (case t of LTable a \<Rightarrow> h\<lparr>tables := (tables h)(a := (tables h a)(k := v))\<rparr> | _ \<Rightarrow> h)"

definition lua_rawget :: "lua_State \<Rightarrow> int \<Rightarrow> lua_State" where
  "lua_rawget L idx =
     (let t = index2val L idx; k = index2val L (- 1)
      in push (lua_pop L 1) (table_get (heap L) t (key_of k)))"

definition lua_rawgeti :: "lua_State \<Rightarrow> int \<Rightarrow> int \<Rightarrow> lua_State" where
  "lua_rawgeti L idx n = push L (table_get (heap L) (index2val L idx) (KInt n))"

definition lua_rawset :: "lua_State \<Rightarrow> int \<Rightarrow> lua_State" where
  "lua_rawset L idx =
     (let t = index2val L idx; k = index2val L (- 2); v = index2val L (- 1)
      in lua_pop (L\<lparr>heap := table_set (heap L) t (key_of k) v\<rparr>) 2)"

definition lua_rawseti :: "lua_State \<Rightarrow> int \<Rightarrow> int \<Rightarrow> lua_State" where
  "lua_rawseti L idx n =
     (let t = index2val L idx; v = index2val L (- 1)
      in lua_pop (L\<lparr>heap := table_set (heap L) t (KInt n) v\<rparr>) 1)"

definition lua_newtable :: "lua_State \<Rightarrow> lua_State" where
  "lua_newtable L =
     (let a = ntables (heap L)
      in push (L\<lparr>heap := (heap L)\<lparr>tables := (tables (heap L))(a := empty_table),
                                   ntables := a + 1\<rparr>\<rparr>) (LTable a))"

definition lua_createtable :: "lua_State \<Rightarrow> int \<Rightarrow> int \<Rightarrow> lua_State" where
  \<comment> \<open>The two sizes only preallocate.\<close>
  "lua_createtable L narr nrec = lua_newtable L"

text \<open>
  Errors raised into the host (\<open>luaL_argerror\<close>, \<open>luaL_error\<close>, a failed index
  operation) and a C++ exception of the adapter are values.
\<close>

datatype lua_error =
    ArgError int string
  | RuntimeError string
  | CppException string

definition lua_gettable :: "lua_State \<Rightarrow> int \<Rightarrow> lua_error + lua_State" where
  \<comment> \<open>Indexing a value that is not a table raises (metatables are not modelled).\<close>
  "lua_gettable L idx =
     (let t = index2val L idx; k = index2val L (- 1)
      in case t of
           LTable a \<Rightarrow> Inr (push (lua_pop L 1) (table_get (heap L) t (key_of k)))
         | _ \<Rightarrow> Inl (RuntimeError ''attempt to index a non-table value''))"

definition lua_settable :: "lua_State \<Rightarrow> int \<Rightarrow> lua_error + lua_State" where
  "lua_settable L idx =
     (let t = index2val L idx; k = index2val L (- 2); v = index2val L (- 1)
      in case t of
           LTable a \<Rightarrow> Inr (lua_pop (L\<lparr>heap := table_set (heap L) t (key_of k) v\<rparr>) 2)
         | _ \<Rightarrow> Inl (RuntimeError ''attempt to index a non-table value''))"

text \<open>
  A protected call: the function and its \<open>nargs\<close> arguments are taken off the stack; on
  success the results, adjusted to \<open>nresults\<close>, are pushed and the status is 0; on an
  error the error value is pushed and the status is \<open>LUA_ERRRUN\<close>.
\<close>

definition LUA_ERRRUN :: int where
  "LUA_ERRRUN = 2"

definition adjust_results :: "nat \<Rightarrow> lvalue list \<Rightarrow> lvalue list" where
  "adjust_results n rs = take n rs @ replicate (n - length rs) LNil"

definition lua_pcall :: "lua_State \<Rightarrow> nat \<Rightarrow> nat \<Rightarrow> int \<times> lua_State" where
  "lua_pcall L nargs nresults =
     (let st = stack L;
          below = take (length st - nargs - 1) st;
          f = index2val L (- (int nargs) - 1);
          args = drop (length st - nargs) st
      in case f of
           LFunction fid \<Rightarrow>
             (case funs L fid args (heap L) of
                Returns rs h \<Rightarrow>
                  (0, L\<lparr>stack := below @ adjust_results nresults rs, heap := h\<rparr>)
              | Raises msg h \<Rightarrow> (LUA_ERRRUN, L\<lparr>stack := below @ [msg], heap := h\<rparr>))
         | _ \<Rightarrow>
             (LUA_ERRRUN,
              L\<lparr>stack := below @ [LString ''attempt to call a non-function value'']\<rparr>))"

text \<open>
  References (\<open>luaL_ref\<close>, \<open>luaL_unref\<close>), after the reference manual: \<open>luaL_ref\<close>
  pops a value, stores it under an integer key that is not in use and returns the key
  (\<open>LUA_REFNIL\<close> for nil); \<open>luaL_unref\<close> removes the entry and frees the key to be
  issued again. A freed key is issued before a new one is made, as lauxlib does.
\<close>

definition LUA_REFNIL :: int where
  "LUA_REFNIL = - 1"

definition luaL_ref :: "lua_State \<Rightarrow> int \<Rightarrow> int \<times> lua_State" where
  "luaL_ref L t =
     (let v = index2val L (- 1); tv = index2val L t; h = heap L
      in if v = LNil then (LUA_REFNIL, lua_pop L 1)
         else case reg_free h of
                r # fs \<Rightarrow>
                  (r, lua_pop (L\<lparr>heap := (table_set h tv (KInt r) v)\<lparr>reg_free := fs\<rparr>\<rparr>) 1)
              | [] \<Rightarrow>
                  (let r = reg_len h + 1
                   in (r, lua_pop (L\<lparr>heap := (table_set h tv (KInt r) v)\<lparr>reg_len := r\<rparr>\<rparr>) 1)))"

definition luaL_unref :: "lua_State \<Rightarrow> int \<Rightarrow> int \<Rightarrow> lua_State" where
  "luaL_unref L t ref =
     (if ref \<ge> 0 then
        (let tv = index2val L t; h = heap L
         in L\<lparr>heap := (table_set h tv (KInt ref) LNil)\<lparr>reg_free := ref # reg_free h\<rparr>\<rparr>)
      else L)"

text \<open>Userdata and metatables.\<close>

definition lua_newuserdata :: "lua_State \<Rightarrow> nat \<times> lua_State" where
  \<comment> \<open>A fresh block, pushed; its contents are not initialised (\<open>d_obj\<close> is \<open>None\<close>)
      and it has no metatable.\<close>
  "lua_newuserdata L =
     (let u = nudata (heap L)
      in (u, push (L\<lparr>heap := (heap L)\<lparr>
                udata := (udata (heap L))(u := \<lparr>block = \<lparr>d_obj = None\<rparr>, metatable = LNil\<rparr>),
                nudata := u + 1\<rparr>\<rparr>) (LUserdata u)))"

definition luaL_getmetatable :: "lua_State \<Rightarrow> string \<Rightarrow> lua_State" where
  "luaL_getmetatable L tname =
     push L (table_get (heap L) (LTable registry_addr) (KStr tname))"

definition lua_setmetatable :: "lua_State \<Rightarrow> int \<Rightarrow> lua_State" where
  \<comment> \<open>Only userdata carry a metatable in this model.\<close>
  "lua_setmetatable L idx =
     (let mt = index2val L (- 1); h = heap L
      in case index2val L idx of
           LUserdata u \<Rightarrow>
             lua_pop (L\<lparr>heap := h\<lparr>udata := (udata h)(u := (udata h u)\<lparr>metatable := mt\<rparr>)\<rparr>\<rparr>) 1
         | _ \<Rightarrow> lua_pop L 1)"

definition luaL_checkudata :: "lua_State \<Rightarrow> int \<Rightarrow> string \<Rightarrow> lua_error + nat" where
  "luaL_checkudata L ud tname =
     (case index2val L ud of
        LUserdata u \<Rightarrow>
          (let mt = metatable (udata (heap L) u)
           in if mt \<noteq> LNil \<and> mt = table_get (heap L) (LTable registry_addr) (KStr tname)
              then Inr u
              else Inl (ArgError ud (tname @ '' expected'')))
      | _ \<Rightarrow> Inl (ArgError ud (tname @ '' expected'')))"

definition luaL_checkinteger :: "lua_State \<Rightarrow> int \<Rightarrow> lua_error + int" where
  "luaL_checkinteger L narg =
     (let d = lua_tointeger L narg
      in if d = 0 \<and> \<not> lua_isnumber L narg then Inl (ArgError narg ''number expected'')
         else Inr d)"

definition luaL_checktype :: "lua_State \<Rightarrow> int \<Rightarrow> ltype \<Rightarrow> lua_error + unit" where
  "luaL_checktype L narg t =
     (if lua_type L narg \<noteq> t then Inl (ArgError narg ''value of another type expected'')
      else Inr ())"

subsection \<open>The trampolines \<open>func\<close> and \<open>mfunc\<close>\<close>

text \<open>
  \<open>callback_context\<close> is the registration record the native library hands back as
  \<open>f_data\<close>. Its field \<open>L\<close> is the one Lua state of this model, so only \<open>ref\<close>
  remains. A native array is a list; the native caller passes arrays of the announced
  lengths, and \<open>None\<close> is the NULL pointer.
\<close>

record callback_context =
  ref :: int

text \<open>Three fragments that the source repeats inline in both trampolines:
  fetching (or creating and storing) the scratch table of the record at index \<open>t\<close>,
  the loop that stores a native array into the table at index \<open>tidx\<close>, and the loop
  that reads it back.\<close>

definition scratch_table :: "lua_State \<Rightarrow> int \<Rightarrow> string \<Rightarrow> lua_State" where
  "scratch_table L t name =
     (let L = lua_pushliteral L name;
          L = lua_rawget L t
      in if \<not> lua_istable L (- 1) then
           (let L = lua_pop L 1;
                L = lua_newtable L;
                L = lua_pushliteral L name;
                L = lua_pushvalue L (- 2)
            in lua_rawset L t)
         else L)"

definition fill_loop :: "lua_State \<Rightarrow> int \<Rightarrow> double list \<Rightarrow> nat \<Rightarrow> lua_State" where
  "fill_loop L tidx xs n =
     fold (\<lambda>i L. lua_rawseti (lua_pushnumber L (xs ! i)) tidx (int i + 1)) [0..<n] L"

definition read_loop ::
  "lua_State \<Rightarrow> int \<Rightarrow> double list \<Rightarrow> nat \<Rightarrow> double list \<times> lua_State" where
  "read_loop L tidx buf n =
     fold (\<lambda>i (buf, L).
             let L = lua_rawgeti L tidx (int i + 1)
             in (buf[i := lua_tonumber L (- 1)], lua_pop L 1))
          [0..<n] (buf, L)"

definition no_gradient :: "lua_State \<Rightarrow> int \<Rightarrow> lua_State" where
  \<comment> \<open>The \<open>else\<close> branch of \<open>if( grad )\<close>: clear the record's slot, pass nil.\<close>
  "no_gradient L t =
     (let L = lua_pushliteral L ''grad'';
          L = lua_pushnil L;
          L = lua_rawset L t
      in lua_pushnil L)"

definition func_args ::
  "lua_State \<Rightarrow> int \<Rightarrow> nat \<Rightarrow> double list \<Rightarrow> double list option \<Rightarrow> lua_State" where
  \<comment> \<open>\<open>func\<close> from \<open>lua_pushinteger( ctx->L, n )\<close> to the last push before
      \<open>lua_pcall\<close>; the stack goes from \<open>t, f\<close> to \<open>t, f, n, x, grad | nil, f_data\<close>.\<close>
  "func_args L t n x grad =
     (let L = lua_pushinteger L (int n);
          L = scratch_table L t ''x'';
          xt = lua_gettop L;
          L = fill_loop L xt x n;
          L = (case grad of
                 Some g \<Rightarrow>
                   (let L = scratch_table L t ''grad'';
                        gradt = lua_gettop L
                    in fill_loop L gradt g n)
               | None \<Rightarrow> no_gradient L t);
          L = lua_pushliteral L ''f_data''
      in lua_rawget L t)"

definition func ::
  "lua_State \<Rightarrow> nat \<Rightarrow> double list \<Rightarrow> double list option \<Rightarrow> callback_context option
     \<Rightarrow> double \<times> double list option \<times> lua_State" where
  "func L n x grad f_data =
     (case f_data of
        None \<Rightarrow> (zero_double, grad, L)
      | Some ctx \<Rightarrow>
          (let L = lua_rawgeti L LUA_REGISTRYINDEX (ref ctx);
               t = lua_gettop L;
               L = lua_pushliteral L ''f'';
               L = lua_rawget L t
           in if \<not> lua_isfunction L (- 1) then (zero_double, grad, lua_pop L 2)
              else
                (let L = func_args L t n x grad
                 in case lua_pcall L 4 1 of
                      (status, L) \<Rightarrow>
                        if status = 0 then
                          (let res = lua_tonumber L (- 1);
                               L = lua_pop L 1
                           in case grad of
                                Some g \<Rightarrow>
                                  (let L = lua_pushliteral L ''grad'';
                                       L = lua_rawget L t;
                                       gradt = lua_gettop L
                                   in case read_loop L gradt g n of
                                        (g, L) \<Rightarrow>
                                          (let L = lua_pop L 1
                                           in (res, Some g, lua_pop L 1)))
                              | None \<Rightarrow> (res, None, lua_pop L 1))
                        else (zero_double, grad, lua_pop L 2))))"

definition mfunc_args ::
  "lua_State \<Rightarrow> int \<Rightarrow> nat \<Rightarrow> double list \<Rightarrow> nat \<Rightarrow> double list \<Rightarrow> double list option
     \<Rightarrow> lua_State" where
  \<comment> \<open>\<open>mfunc\<close> from \<open>lua_pushinteger( ctx->L, m )\<close> to the last push before
      \<open>lua_pcall\<close>; the stack goes from \<open>t, f\<close> to
      \<open>t, f, m, result, n, x, grad | nil, f_data\<close>. The bound \<open>n * m\<close> is computed
      in \<open>unsigned\<close>.\<close>
  "mfunc_args L t m result n x grad =
     (let L = lua_pushinteger L (int m);
          L = scratch_table L t ''result'';
          resultt = lua_gettop L;
          L = fill_loop L resultt result m;
          L = lua_pushinteger L (int n);
          L = scratch_table L t ''x'';
          xt = lua_gettop L;
          L = fill_loop L xt x n;
          L = (case grad of
                 Some g \<Rightarrow>
                   (let L = scratch_table L t ''grad'';
                        gradt = lua_gettop L
                    in fill_loop L gradt g ((n * m) mod 2 ^ 32))
               | None \<Rightarrow> no_gradient L t);
          L = lua_pushliteral L ''f_data''
      in lua_rawget L t)"

definition mfunc ::
  "lua_State \<Rightarrow> nat \<Rightarrow> double list \<Rightarrow> nat \<Rightarrow> double list \<Rightarrow> double list option
     \<Rightarrow> callback_context option \<Rightarrow> double list \<times> double list option \<times> lua_State" where
  "mfunc L m result n x grad f_data =
     (case f_data of
        None \<Rightarrow> (result, grad, L)
      | Some ctx \<Rightarrow>
          (let L = lua_rawgeti L LUA_REGISTRYINDEX (ref ctx);
               t = lua_gettop L;
               L = lua_pushliteral L ''f'';
               L = lua_rawget L t
           in if \<not> lua_isfunction L (- 1) then (result, grad, lua_pop L 2)
              else
                (let L = mfunc_args L t m result n x grad
                 in case lua_pcall L 6 0 of
                      (status, L) \<Rightarrow>
                        if status = 0 then
                          (let L = lua_pushliteral L ''result'';
                               L = lua_rawget L t;
                               resultt = lua_gettop L
                           in case read_loop L resultt result m of
                                (result, L) \<Rightarrow>
                                  (case grad of
                                     Some g \<Rightarrow>
                                       (let L = lua_pushliteral L ''grad'';
                                            L = lua_rawget L t;
                                            gradt = lua_gettop L
                                        in case read_loop L gradt g n of
                                             (g, L) \<Rightarrow>
                                               (let L = lua_pop L 1
                                                in (result, Some g, lua_pop L 1)))
                                   | None \<Rightarrow> (result, None, lua_pop L 1)))
                        else (result, grad, lua_pop L 2))))"

subsection \<open>The native library\<close>

text \<open>
  NLopt is an external collaborator; the adapter only sees an opaque handle. What follows
  is the part of its documented behaviour that the adapter relies on. The constants of its
  header that the adapter uses, its per-algorithm acceptance of constraints and the
  numerical iteration itself are parameters, collected in \<open>nlopt_lib\<close>.
\<close>

datatype munge = Munge_on_destroy | Munge_on_copy

datatype trampoline = Func | Mfunc

record nlopt_constraint =
  c_m :: nat
  c_f :: trampoline
  c_f_data :: "nat option"
  c_tol :: "double list option"

record nlopt_opt_s =
  opt_algorithm :: int
  opt_n :: nat
  opt_f :: "trampoline option"
  opt_f_data :: "nat option"
  opt_maximize :: bool
  opt_lb :: "double list"
  opt_ub :: "double list"
  opt_fc :: "nlopt_constraint list"
  opt_h :: "nlopt_constraint list"
  opt_xtol_abs :: "double list"
  opt_munge_on_destroy :: "munge option"
  opt_munge_on_copy :: "munge option"

text \<open>
  The iteration of an algorithm is any finite interaction with the callbacks: it stops
  with a status, a final point and possibly a value stored through \<open>opt_f\<close>, or it
  evaluates the objective or a constraint at a point (with a gradient buffer or with NULL)
  and goes on from what the callback gave.
\<close>

datatype slot = Objective | Inequality nat | Equality nat

datatype strategy =
    Stop int "double list" "double option"
  | Eval slot "double list" "double list option"
      "double \<Rightarrow> double list option \<Rightarrow> strategy"
  | MEval slot "double list" "double list" "double list option"
      "double list \<Rightarrow> double list option \<Rightarrow> strategy"

record nlopt_lib =
  NLOPT_NUM_ALGORITHMS :: int
  inequality_ok :: "int \<Rightarrow> bool"
  equality_ok :: "int \<Rightarrow> bool"
  iteration :: "nlopt_opt_s \<Rightarrow> double list \<Rightarrow> strategy"

definition NLOPT_SUCCESS :: int where
  "NLOPT_SUCCESS = 1"

definition NLOPT_INVALID_ARGS :: int where
  "NLOPT_INVALID_ARGS = - 2"

text \<open>
  The world: the Lua state, the \<open>callback_context\<close> records allocated with \<open>new\<close>,
  the native optimizers, how many more native optimizers can be allocated, the seed last
  given to the native random generator, and a flag that is set once a dangling pointer is
  dereferenced or a record is deleted twice (undefined behaviour in C++).
\<close>

record world =
  lua :: lua_State
  ctxs :: "nat \<Rightarrow> callback_context option"
  nctxs :: nat
  opts :: "nat \<Rightarrow> nlopt_opt_s option"
  nopts :: nat
  native_memory :: nat
  rng_seed :: "nat option"
  undefined_behaviour :: bool
  lib :: nlopt_lib

subsection \<open>The adapter's hooks \<open>munge_on_destroy\<close> and \<open>munge_on_copy\<close>\<close>

definition munge_on_destroy :: "nat option \<Rightarrow> world \<Rightarrow> world" where
  "munge_on_destroy f_data w =
     (case f_data of
        None \<Rightarrow> w
      | Some p \<Rightarrow>
          (case ctxs w p of
             None \<Rightarrow> w\<lparr>undefined_behaviour := True\<rparr>
           | Some ctx \<Rightarrow>
               w\<lparr>lua := luaL_unref (lua w) LUA_REGISTRYINDEX (ref ctx),
                  ctxs := (ctxs w)(p := None)\<rparr>))"

definition munge_on_copy :: "nat option \<Rightarrow> world \<Rightarrow> nat option \<times> world" where
  "munge_on_copy f_data w =
     (case f_data of
        None \<Rightarrow> (None, w)
      | Some p \<Rightarrow>
          (case ctxs w p of
             None \<Rightarrow> (None, w\<lparr>undefined_behaviour := True\<rparr>)
           | Some ctx \<Rightarrow>
               (let L = lua_rawgeti (lua w) LUA_REGISTRYINDEX (ref ctx);
                    source = lua_gettop L;
                    ctx_new = nctxs w;
                    L = lua_newtable L;
                    t = lua_gettop L;
                    L = lua_pushvalue L t
                in case luaL_ref L LUA_REGISTRYINDEX of
                     (r, L) \<Rightarrow>
                       (let L = lua_pushliteral L ''f'';
                            L = lua_pushvalue L (- 1);
                            L = lua_rawget L source;
                            L = lua_rawset L t;
                            L = lua_pushliteral L ''f_data'';
                            L = lua_pushvalue L (- 1);
                            L = lua_rawget L source;
                            L = lua_rawset L t;
                            L = lua_pop L 2
                        in (Some ctx_new,
                            w\<lparr>lua := L,
                               ctxs := (ctxs w)(ctx_new := Some \<lparr>ref = r\<rparr>),
                               nctxs := ctx_new + 1\<rparr>)))))"

subsection \<open>Native operations on the handle\<close>

definition call_munge :: "munge option \<Rightarrow> nat option \<Rightarrow> world \<Rightarrow> nat option \<times> world" where
  \<comment> \<open>Modelled from the spec: the native library calls the hook that was installed with
      \<open>nlopt_set_munge\<close> on a closure's opaque pointer and keeps what it returns;
      without a hook the pointer is kept as it is.\<close>
  "call_munge hook f_data w =
     (case hook of
        None \<Rightarrow> (f_data, w)
      | Some Munge_on_destroy \<Rightarrow> (None, munge_on_destroy f_data w)
      | Some Munge_on_copy \<Rightarrow> munge_on_copy f_data w)"

fun munge_constraints ::
  "munge option \<Rightarrow> nlopt_constraint list \<Rightarrow> world \<Rightarrow> nlopt_constraint list \<times> world" where
  "munge_constraints hook [] w = ([], w)"
| "munge_constraints hook (c # cs) w =
     (case call_munge hook (c_f_data c) w of
        (p, w) \<Rightarrow>
          (case munge_constraints hook cs w of
             (cs', w) \<Rightarrow> (c\<lparr>c_f_data := p\<rparr> # cs', w)))"

definition minus_infinity :: double where
  "minus_infinity = Double True 2047 0"

definition plus_infinity :: double where
  "plus_infinity = Double False 2047 0"

definition nlopt_create :: "int \<Rightarrow> nat \<Rightarrow> world \<Rightarrow> nat option \<times> world" where
  \<comment> \<open>Modelled from the spec: a new optimizer of the given algorithm and dimension with no
      closures attached, or NULL when the algorithm is unknown or the allocation fails.\<close>
  "nlopt_create algorithm n w =
     (if algorithm < 0 \<or> algorithm \<ge> NLOPT_NUM_ALGORITHMS (lib w) \<or> native_memory w = 0
      then (None, w)
      else
        (let p = nopts w
         in (Some p,
             w\<lparr>opts := (opts w)(p := Some
                   \<lparr>opt_algorithm = algorithm, opt_n = n, opt_f = None, opt_f_data = None,
                    opt_maximize = False, opt_lb = replicate n minus_infinity,
                    opt_ub = replicate n plus_infinity, opt_fc = [], opt_h = [],
                    opt_xtol_abs = replicate n zero_double,
                    opt_munge_on_destroy = None, opt_munge_on_copy = None\<rparr>),
                nopts := p + 1,
                native_memory := native_memory w - 1\<rparr>)))"

definition nlopt_set_munge ::
  "nat option \<Rightarrow> munge option \<Rightarrow> munge option \<Rightarrow> world \<Rightarrow> world" where
  \<comment> \<open>Modelled from the spec: installs the two hooks in the optimizer.\<close>
  "nlopt_set_munge obj on_destroy on_copy w =
     (case obj of
        None \<Rightarrow> w
      | Some p \<Rightarrow>
          (case opts w p of
             None \<Rightarrow> w\<lparr>undefined_behaviour := True\<rparr>
           | Some opt \<Rightarrow>
               w\<lparr>opts := (opts w)(p := Some (opt\<lparr>opt_munge_on_destroy := on_destroy,
                                                   opt_munge_on_copy := on_copy\<rparr>))\<rparr>))"

definition nlopt_destroy :: "nat option \<Rightarrow> world \<Rightarrow> world" where
  \<comment> \<open>Modelled from the spec: the destroy hook is called on the objective's pointer and on
      the pointer of every inequality and equality constraint, then the optimizer is freed.\<close>
  "nlopt_destroy obj w =
     (case obj of
        None \<Rightarrow> w
      | Some p \<Rightarrow>
          (case opts w p of
             None \<Rightarrow> w\<lparr>undefined_behaviour := True\<rparr>
           | Some opt \<Rightarrow>
               (let hook = opt_munge_on_destroy opt;
                    w = (if hook = None then w
                         else
                           (let w = snd (call_munge hook (opt_f_data opt) w);
                                w = snd (munge_constraints hook (opt_fc opt) w)
                            in snd (munge_constraints hook (opt_h opt) w)))
                in w\<lparr>opts := (opts w)(p := None),
                      native_memory := native_memory w + 1\<rparr>)))"

definition nlopt_copy :: "nat option \<Rightarrow> world \<Rightarrow> nat option \<times> world" where
  \<comment> \<open>Modelled from the spec: a new optimizer with the same settings, in which every
      closure pointer is replaced by what the copy hook returns for it; NULL when the
      allocation fails.\<close>
  "nlopt_copy obj w =
     (case obj of
        None \<Rightarrow> (None, w)
      | Some p \<Rightarrow>
          (case opts w p of
             None \<Rightarrow> (None, w\<lparr>undefined_behaviour := True\<rparr>)
           | Some opt \<Rightarrow>
               if native_memory w = 0 then (None, w)
               else
                 (let q = nopts w;
                      hook = opt_munge_on_copy opt
                  in case call_munge hook (opt_f_data opt) w of
                       (fd, w) \<Rightarrow>
                         (case munge_constraints hook (opt_fc opt) w of
                            (fc, w) \<Rightarrow>
                              (case munge_constraints hook (opt_h opt) w of
                                 (h, w) \<Rightarrow>
                                   (Some q,
                                    w\<lparr>opts := (opts w)(q := Some
                                          (opt\<lparr>opt_f_data := fd, opt_fc := fc, opt_h := h\<rparr>)),
                                       nopts := q + 1,
                                       native_memory := native_memory w - 1\<rparr>))))))"

definition nlopt_remove_inequality_constraints :: "nat option \<Rightarrow> world \<Rightarrow> int \<times> world" where
  \<comment> \<open>Modelled from the spec: the destroy hook is called on every inequality constraint's
      pointer and the list is emptied.\<close>
  "nlopt_remove_inequality_constraints obj w =
     (case obj of
        None \<Rightarrow> (NLOPT_INVALID_ARGS, w)
      | Some p \<Rightarrow>
          (case opts w p of
             None \<Rightarrow> (NLOPT_INVALID_ARGS, w\<lparr>undefined_behaviour := True\<rparr>)
           | Some opt \<Rightarrow>
               (let hook = opt_munge_on_destroy opt;
                    w = (if hook = None then w
                         else snd (munge_constraints hook (opt_fc opt) w))
                in (NLOPT_SUCCESS, w\<lparr>opts := (opts w)(p := Some (opt\<lparr>opt_fc := []\<rparr>))\<rparr>))))"

definition nlopt_remove_equality_constraints :: "nat option \<Rightarrow> world \<Rightarrow> int \<times> world" where
  \<comment> \<open>Modelled from the spec: as for the inequality constraints.\<close>
  "nlopt_remove_equality_constraints obj w =
     (case obj of
        None \<Rightarrow> (NLOPT_INVALID_ARGS, w)
      | Some p \<Rightarrow>
          (case opts w p of
             None \<Rightarrow> (NLOPT_INVALID_ARGS, w\<lparr>undefined_behaviour := True\<rparr>)
           | Some opt \<Rightarrow>
               (let hook = opt_munge_on_destroy opt;
                    w = (if hook = None then w
                         else snd (munge_constraints hook (opt_h opt) w))
                in (NLOPT_SUCCESS, w\<lparr>opts := (opts w)(p := Some (opt\<lparr>opt_h := []\<rparr>))\<rparr>))))"

definition nlopt_set_min_objective ::
  "nat option \<Rightarrow> trampoline \<Rightarrow> nat option \<Rightarrow> world \<Rightarrow> int \<times> world" where
  \<comment> \<open>Modelled from the spec: the closure that is replaced is released through the destroy
      hook, then the new one is attached.\<close>
  "nlopt_set_min_objective obj f f_data w =
     (case obj of
        None \<Rightarrow> (NLOPT_INVALID_ARGS, w)
      | Some p \<Rightarrow>
          (case opts w p of
             None \<Rightarrow> (NLOPT_INVALID_ARGS, w\<lparr>undefined_behaviour := True\<rparr>)
           | Some opt \<Rightarrow>
               (let hook = opt_munge_on_destroy opt;
                    w = (if hook = None then w else snd (call_munge hook (opt_f_data opt) w))
                in (NLOPT_SUCCESS,
                    w\<lparr>opts := (opts w)(p := Some
                          (opt\<lparr>opt_f := Some f, opt_f_data := f_data,
                               opt_maximize := False\<rparr>))\<rparr>))))"

definition nlopt_set_max_objective ::
  "nat option \<Rightarrow> trampoline \<Rightarrow> nat option \<Rightarrow> world \<Rightarrow> int \<times> world" where
  \<comment> \<open>Modelled from the spec: as \<open>nlopt_set_min_objective\<close>, for maximisation.\<close>
  "nlopt_set_max_objective obj f f_data w =
     (case obj of
        None \<Rightarrow> (NLOPT_INVALID_ARGS, w)
      | Some p \<Rightarrow>
          (case opts w p of
             None \<Rightarrow> (NLOPT_INVALID_ARGS, w\<lparr>undefined_behaviour := True\<rparr>)
           | Some opt \<Rightarrow>
               (let hook = opt_munge_on_destroy opt;
                    w = (if hook = None then w else snd (call_munge hook (opt_f_data opt) w))
                in (NLOPT_SUCCESS,
                    w\<lparr>opts := (opts w)(p := Some
                          (opt\<lparr>opt_f := Some f, opt_f_data := f_data,
                               opt_maximize := True\<rparr>))\<rparr>))))"

definition double_negative :: "double \<Rightarrow> bool" where
  "double_negative d = (sign d \<and> \<not> is_nan d \<and> \<not> is_zero d)"

definition add_constraint ::
  "bool \<Rightarrow> nat option \<Rightarrow> nlopt_constraint \<Rightarrow> bool \<Rightarrow> world \<Rightarrow> int \<times> world" where
  \<comment> \<open>Modelled from the spec: a constraint is attached to the inequality list (\<open>ineq\<close>)
      or to the equality list when the algorithm accepts such constraints and no tolerance
      is negative; a constraint that is not attached, or that has no outputs, is released
      through the destroy hook at once.\<close>
  "add_constraint ineq obj c tol_ok w =
     (case obj of
        None \<Rightarrow> (if c_m c = 0 then NLOPT_SUCCESS else NLOPT_INVALID_ARGS, w)
      | Some p \<Rightarrow>
          (case opts w p of
             None \<Rightarrow> (NLOPT_INVALID_ARGS, w\<lparr>undefined_behaviour := True\<rparr>)
           | Some opt \<Rightarrow>
               (let hook = opt_munge_on_destroy opt;
                    released = (if hook = None then w else snd (call_munge hook (c_f_data c) w))
                in if c_m c = 0 then (NLOPT_SUCCESS, released)
                   else if (if ineq then inequality_ok (lib w) (opt_algorithm opt)
                            else equality_ok (lib w) (opt_algorithm opt)) \<and> tol_ok
                   then (NLOPT_SUCCESS,
                         w\<lparr>opts := (opts w)(p := Some
                               (if ineq then opt\<lparr>opt_fc := opt_fc opt @ [c]\<rparr>
                                else opt\<lparr>opt_h := opt_h opt @ [c]\<rparr>))\<rparr>)
                   else (NLOPT_INVALID_ARGS, released))))"

definition nlopt_add_inequality_constraint ::
  "nat option \<Rightarrow> trampoline \<Rightarrow> nat option \<Rightarrow> double \<Rightarrow> world \<Rightarrow> int \<times> world" where
  "nlopt_add_inequality_constraint obj fc fc_data tol w =
     add_constraint True obj \<lparr>c_m = 1, c_f = fc, c_f_data = fc_data, c_tol = Some [tol]\<rparr>
       (\<not> double_negative tol) w"

definition nlopt_add_equality_constraint ::
  "nat option \<Rightarrow> trampoline \<Rightarrow> nat option \<Rightarrow> double \<Rightarrow> world \<Rightarrow> int \<times> world" where
  "nlopt_add_equality_constraint obj fc fc_data tol w =
     add_constraint False obj \<lparr>c_m = 1, c_f = fc, c_f_data = fc_data, c_tol = Some [tol]\<rparr>
       (\<not> double_negative tol) w"

definition nlopt_add_inequality_mconstraint ::
  "nat option \<Rightarrow> nat \<Rightarrow> trampoline \<Rightarrow> nat option \<Rightarrow> double list option \<Rightarrow> world
     \<Rightarrow> int \<times> world" where
  "nlopt_add_inequality_mconstraint obj m fc fc_data tol w =
     add_constraint True obj \<lparr>c_m = m, c_f = fc, c_f_data = fc_data, c_tol = tol\<rparr>
       (case tol of None \<Rightarrow> True | Some ts \<Rightarrow> \<not> list_ex double_negative (take m ts)) w"

definition nlopt_add_equality_mconstraint ::
  "nat option \<Rightarrow> nat \<Rightarrow> trampoline \<Rightarrow> nat option \<Rightarrow> double list option \<Rightarrow> world
     \<Rightarrow> int \<times> world" where
  "nlopt_add_equality_mconstraint obj m fc fc_data tol w =
     add_constraint False obj \<lparr>c_m = m, c_f = fc, c_f_data = fc_data, c_tol = tol\<rparr>
       (case tol of None \<Rightarrow> True | Some ts \<Rightarrow> \<not> list_ex double_negative (take m ts)) w"

definition nlopt_get_dimension :: "nat option \<Rightarrow> world \<Rightarrow> nat \<times> world" where
  \<comment> \<open>Modelled from the spec: the dimension given at creation; the native accessor reads
      through the pointer without a check.\<close>
  "nlopt_get_dimension obj w =
     (case obj of
        None \<Rightarrow> (0, w\<lparr>undefined_behaviour := True\<rparr>)
      | Some p \<Rightarrow>
          (case opts w p of
             None \<Rightarrow> (0, w\<lparr>undefined_behaviour := True\<rparr>)
           | Some opt \<Rightarrow> (opt_n opt, w)))"

datatype vector_setting = Lower_bounds | Upper_bounds | Xtol_abs

definition get_setting :: "vector_setting \<Rightarrow> nlopt_opt_s \<Rightarrow> double list" where
  "get_setting which opt =
     (case which of
        Lower_bounds \<Rightarrow> opt_lb opt | Upper_bounds \<Rightarrow> opt_ub opt | Xtol_abs \<Rightarrow> opt_xtol_abs opt)"

definition put_setting :: "vector_setting \<Rightarrow> double list \<Rightarrow> nlopt_opt_s \<Rightarrow> nlopt_opt_s" where
  "put_setting which v opt =
     (case which of
        Lower_bounds \<Rightarrow> opt\<lparr>opt_lb := v\<rparr>
      | Upper_bounds \<Rightarrow> opt\<lparr>opt_ub := v\<rparr>
      | Xtol_abs \<Rightarrow> opt\<lparr>opt_xtol_abs := v\<rparr>)"

definition nlopt_set_vector ::
  "vector_setting \<Rightarrow> nat option \<Rightarrow> double list \<Rightarrow> world \<Rightarrow> int \<times> world" where
  \<comment> \<open>Modelled from the spec: \<open>nlopt_set_lower_bounds\<close>, \<open>nlopt_set_upper_bounds\<close> and
      \<open>nlopt_set_xtol_abs\<close> copy as many doubles as the dimension from the caller's array
      into the optimizer, unchanged. An array shorter than the dimension is read past its
      end.\<close>
  "nlopt_set_vector which obj v w =
     (case obj of
        None \<Rightarrow> (NLOPT_INVALID_ARGS, w)
      | Some p \<Rightarrow>
          (case opts w p of
             None \<Rightarrow> (NLOPT_INVALID_ARGS, w\<lparr>undefined_behaviour := True\<rparr>)
           | Some opt \<Rightarrow>
               if length v < opt_n opt then (NLOPT_SUCCESS, w\<lparr>undefined_behaviour := True\<rparr>)
               else (NLOPT_SUCCESS,
                     w\<lparr>opts := (opts w)(p := Some
                           (put_setting which (take (opt_n opt) v) opt))\<rparr>)))"

definition nlopt_get_vector ::
  "vector_setting \<Rightarrow> nat option \<Rightarrow> double list \<Rightarrow> world \<Rightarrow> int \<times> double list \<times> world" where
  \<comment> \<open>Modelled from the spec: \<open>nlopt_get_lower_bounds\<close>, \<open>nlopt_get_upper_bounds\<close> and
      \<open>nlopt_get_xtol_abs\<close> copy the stored doubles into the caller's array.\<close>
  "nlopt_get_vector which obj buf w =
     (case obj of
        None \<Rightarrow> (NLOPT_INVALID_ARGS, buf, w)
      | Some p \<Rightarrow>
          (case opts w p of
             None \<Rightarrow> (NLOPT_INVALID_ARGS, buf, w\<lparr>undefined_behaviour := True\<rparr>)
           | Some opt \<Rightarrow>
               (NLOPT_SUCCESS,
                get_setting which opt @ drop (length (get_setting which opt)) buf, w)))"



definition deref_ctx :: "nat option \<Rightarrow> world \<Rightarrow> callback_context option \<times> world" where
  "deref_ctx f_data w =
     (case f_data of
        None \<Rightarrow> (None, w)
      | Some p \<Rightarrow>
          (case ctxs w p of
             None \<Rightarrow> (None, w\<lparr>undefined_behaviour := True\<rparr>)
           | Some ctx \<Rightarrow> (Some ctx, w)))"



subsection \<open>The adapter's functions\<close>

text \<open>
  A C function called from Lua either raises (\<open>Error\<close>) or returns the number of
  results it left on top of the stack (\<open>Ok\<close>). \<open>results\<close> are those values.
\<close>

datatype cresult = Error lua_error world | Ok nat world

definition results :: "nat \<Rightarrow> world \<Rightarrow> lvalue list" where
  "results k w = drop (length (stack (lua w)) - k) (stack (lua w))"

definition nlopt_metaName :: string where
  "nlopt_metaName = ''nlopt_opt''"

definition check :: "lua_State \<Rightarrow> int \<Rightarrow> lua_error + nat" where
  "check L narg = luaL_checkudata L narg nlopt_metaName"

definition holder_d_obj :: "lua_State \<Rightarrow> nat \<Rightarrow> nat option" where
  \<comment> \<open>\<open>holder->d_obj\<close>\<close>
  "holder_d_obj L u = d_obj (block (udata (heap L) u))"

definition set_holder_d_obj :: "lua_State \<Rightarrow> nat \<Rightarrow> nat option \<Rightarrow> lua_State" where
  \<comment> \<open>\<open>holder->d_obj = obj\<close>\<close>
  "set_holder_d_obj L u obj =
     L\<lparr>heap := (heap L)\<lparr>udata := (udata (heap L))
            (u := (udata (heap L) u)\<lparr>block := \<lparr>d_obj = obj\<rparr>\<rparr>)\<rparr>\<rparr>"

text \<open>Conversions between C integer types, 32 bits for \<open>int\<close> and \<open>unsigned\<close>.\<close>

definition to_int :: "int \<Rightarrow> int" where
  "to_int i = (i + 2 ^ 31) mod 2 ^ 32 - 2 ^ 31"

definition to_unsigned :: "int \<Rightarrow> nat" where
  "to_unsigned i = nat (i mod 2 ^ 32)"


definition double_to_unsigned :: "double \<Rightarrow> nat" where
  "double_to_unsigned d = to_unsigned (double_to_int 64 d)"


definition create :: "world \<Rightarrow> cresult" where
  "create w =
     (case luaL_checkinteger (lua w) 1 of
        Inl e \<Rightarrow> Error e w
      | Inr algorithm \<Rightarrow>
          if algorithm < 0 \<or> algorithm \<ge> NLOPT_NUM_ALGORITHMS (lib w)
          then Error (ArgError 1 ''expecting nlopt.algorithm'') w
          else
            (case luaL_checkinteger (lua w) 2 of
               Inl e \<Rightarrow> Error e w
             | Inr n \<Rightarrow>
                 if n < 0 then Error (ArgError 2 ''expecting unsigned integer'') w
                 else
                   (case nlopt_create (to_int algorithm) (to_unsigned n) w of
                      (obj, w) \<Rightarrow>
                        if obj = None then Error (RuntimeError ''nlopt_create out of memory'') w
                        else
                          (let w = nlopt_set_munge obj (Some Munge_on_destroy)
                                     (Some Munge_on_copy) w
                           in case lua_newuserdata (lua w) of
                                (holder, L) \<Rightarrow>
                                  (let L = set_holder_d_obj L holder obj;
                                       L = luaL_getmetatable L nlopt_metaName
                                   in if \<not> lua_istable L (- 1)
                                      then Error (RuntimeError
                                             ''internal error: no meta table for 'nlopt_opt' '')
                                             (w\<lparr>lua := L\<rparr>)
                                      else Ok 1 (w\<lparr>lua := lua_setmetatable L (- 2)\<rparr>))))))"

definition finalize_nlopt_opt_s :: "world \<Rightarrow> cresult" where
  "finalize_nlopt_opt_s w =
     (case check (lua w) 1 of
        Inl e \<Rightarrow> Error e w
      | Inr holder \<Rightarrow> Ok 0 (nlopt_destroy (holder_d_obj (lua w) holder) w))"

definition copy :: "world \<Rightarrow> cresult" where
  "copy w =
     (case check (lua w) 1 of
        Inl e \<Rightarrow> Error e w
      | Inr rhs \<Rightarrow>
          (case nlopt_copy (holder_d_obj (lua w) rhs) w of
             (obj, w) \<Rightarrow>
               if obj = None then Error (RuntimeError ''nlopt_copy out of memory'') w
               else
                 (case lua_newuserdata (lua w) of
                    (lhs, L) \<Rightarrow>
                      (let L = set_holder_d_obj L lhs obj;
                           L = luaL_getmetatable L nlopt_metaName
                       in if \<not> lua_istable L (- 1)
                          then Error (RuntimeError
                                 ''internal error: no meta table for 'nlopt_opt' '')
                                 (w\<lparr>lua := L\<rparr>)
                          else Ok 1 (w\<lparr>lua := lua_setmetatable L (- 2)\<rparr>)))))"

text \<open>
  A loop whose body can raise stops at the first error. The loop that reads a Lua
  sequence into a \<open>std::vector<double>\<close> of \<open>n\<close> zeros occurs inline in every function
  that takes a sequence; \<open>idx\<close> is the stack index of the sequence.
\<close>

fun loop_err :: "nat list \<Rightarrow> (nat \<Rightarrow> 's \<Rightarrow> lua_error + 's) \<Rightarrow> 's \<Rightarrow> lua_error + 's" where
  "loop_err [] body s = Inr s"
| "loop_err (i # is) body s =
     (case body i s of Inl e \<Rightarrow> Inl e | Inr s' \<Rightarrow> loop_err is body s')"

definition read_vector ::
  "lua_State \<Rightarrow> int \<Rightarrow> nat \<Rightarrow> lua_error + double list \<times> lua_State" where
  "read_vector L idx n =
     loop_err [0..<n]
       (\<lambda>i (lb, L).
          case lua_gettable (lua_pushinteger L (int i + 1)) idx of
            Inl e \<Rightarrow> Inl e
          | Inr L \<Rightarrow> Inr (lb[i := lua_tonumber L (- 1)], lua_pop L 1))
       (replicate n zero_double, L)"

definition set_vector :: "vector_setting \<Rightarrow> world \<Rightarrow> cresult" where
  \<comment> \<open>The common text of \<open>set_lower_bounds\<close>, \<open>set_upper_bounds\<close> and
      \<open>set_xtol_abs\<close>, which differ in the native setter they call. A dimension that
      is negative as an \<open>int\<close> makes the vector's constructor throw.\<close>
  "set_vector which w =
     (case check (lua w) 1 of
        Inl e \<Rightarrow> Error e w
      | Inr holder \<Rightarrow>
          (case luaL_checktype (lua w) 2 LUA_TTABLE of
             Inl e \<Rightarrow> Error e w
           | Inr _ \<Rightarrow>
               (case nlopt_get_dimension (holder_d_obj (lua w) holder) w of
                  (d, w) \<Rightarrow>
                    (let n = to_int (int d)
                     in if n < 0 then Error (CppException ''std::length_error'') w
                        else
                          (case read_vector (lua w) 2 (nat n) of
                             Inl e \<Rightarrow> Error e w
                           | Inr (lb, L) \<Rightarrow>
                               (case nlopt_set_vector which (holder_d_obj L holder) lb
                                       (w\<lparr>lua := L\<rparr>) of
                                  (status, w) \<Rightarrow>
                                    Ok 1 (w\<lparr>lua := lua_pushinteger (lua w) status\<rparr>)))))))"

definition set_lower_bounds :: "world \<Rightarrow> cresult" where
  "set_lower_bounds = set_vector Lower_bounds"

definition set_upper_bounds :: "world \<Rightarrow> cresult" where
  "set_upper_bounds = set_vector Upper_bounds"

definition set_xtol_abs :: "world \<Rightarrow> cresult" where
  "set_xtol_abs = set_vector Xtol_abs"

definition get_vector :: "vector_setting \<Rightarrow> world \<Rightarrow> cresult" where
  \<comment> \<open>The common text of \<open>get_lower_bounds\<close>, \<open>get_upper_bounds\<close> and
      \<open>get_xtol_abs\<close>.\<close>
  "get_vector which w =
     (case check (lua w) 1 of
        Inl e \<Rightarrow> Error e w
      | Inr holder \<Rightarrow>
          (case nlopt_get_dimension (holder_d_obj (lua w) holder) w of
             (d, w) \<Rightarrow>
               (let n = to_int (int d)
                in if n < 0 then Error (CppException ''std::length_error'') w
                   else
                     (case nlopt_get_vector which (holder_d_obj (lua w) holder)
                             (replicate (nat n) zero_double) w of
                        (status, lb, w) \<Rightarrow>
                          (let L = lua_pushinteger (lua w) status;
                               L = lua_createtable L n 0;
                               L = fill_loop L (- 2) lb (nat n)
                           in Ok 2 (w\<lparr>lua := L\<rparr>))))))"

definition get_lower_bounds :: "world \<Rightarrow> cresult" where
  "get_lower_bounds = get_vector Lower_bounds"

definition get_upper_bounds :: "world \<Rightarrow> cresult" where
  "get_upper_bounds = get_vector Upper_bounds"

definition get_xtol_abs :: "world \<Rightarrow> cresult" where
  "get_xtol_abs = get_vector Xtol_abs"

text \<open>
  Registration, as every function that accepts a callable does it inline: a new
  \<open>callback_context\<close>, a new table referenced from the registry, the callable at stack
  index \<open>fidx\<close> stored under \<open>f\<close> and the user data at index \<open>didx\<close> under
  \<open>f_data\<close>. The result is the pointer to the context.
\<close>

definition new_closure :: "world \<Rightarrow> int \<Rightarrow> int \<Rightarrow> nat \<times> world" where
  "new_closure w fidx didx =
     (let ctx = nctxs w;
          L = lua_newtable (lua w);
          t = lua_gettop L;
          L = lua_pushvalue L t
      in case luaL_ref L LUA_REGISTRYINDEX of
           (r, L) \<Rightarrow>
             (let L = lua_pushliteral L ''f'';
                  L = lua_pushvalue L fidx;
                  L = lua_rawset L t;
                  L = lua_pushliteral L ''f_data'';
                  L = lua_pushvalue L didx;
                  L = lua_rawset L t;
                  L = lua_pop L 1
              in (ctx, w\<lparr>lua := L, ctxs := (ctxs w)(ctx := Some \<lparr>ref = r\<rparr>),
                         nctxs := ctx + 1\<rparr>)))"

definition set_objective :: "bool \<Rightarrow> world \<Rightarrow> cresult" where
  \<comment> \<open>The common text of \<open>set_min_objective\<close> and \<open>set_max_objective\<close>.\<close>
  "set_objective maximize w =
     (case check (lua w) 1 of
        Inl e \<Rightarrow> Error e w
      | Inr holder \<Rightarrow>
          (case luaL_checktype (lua w) 2 LUA_TFUNCTION of
             Inl e \<Rightarrow> Error e w
           | Inr _ \<Rightarrow>
               (case new_closure w 2 3 of
                  (ctx, w) \<Rightarrow>
                    (case (if maximize then nlopt_set_max_objective else nlopt_set_min_objective)
                            (holder_d_obj (lua w) holder) Func (Some ctx) w of
                       (status, w) \<Rightarrow>
                         Ok 1 (w\<lparr>lua := lua_pushinteger (lua w) status\<rparr>)))))"

definition set_min_objective :: "world \<Rightarrow> cresult" where
  "set_min_objective = set_objective False"

definition set_max_objective :: "world \<Rightarrow> cresult" where
  "set_max_objective = set_objective True"

definition add_scalar_constraint :: "bool \<Rightarrow> world \<Rightarrow> cresult" where
  \<comment> \<open>The common text of \<open>add_inequality_constraint\<close> (\<open>ineq\<close>) and
      \<open>add_equality_constraint\<close>.\<close>
  "add_scalar_constraint ineq w =
     (case check (lua w) 1 of
        Inl e \<Rightarrow> Error e w
      | Inr holder \<Rightarrow>
          (case luaL_checktype (lua w) 2 LUA_TFUNCTION of
             Inl e \<Rightarrow> Error e w
           | Inr _ \<Rightarrow>
               (case new_closure w 2 3 of
                  (ctx, w) \<Rightarrow>
                    (case (if ineq then nlopt_add_inequality_constraint
                           else nlopt_add_equality_constraint)
                            (holder_d_obj (lua w) holder) Func (Some ctx)
                            (lua_tonumber (lua w) 4) w of
                       (status, w) \<Rightarrow>
                         Ok 1 (w\<lparr>lua := lua_pushinteger (lua w) status\<rparr>)))))"

definition add_inequality_constraint :: "world \<Rightarrow> cresult" where
  "add_inequality_constraint = add_scalar_constraint True"

definition add_equality_constraint :: "world \<Rightarrow> cresult" where
  "add_equality_constraint = add_scalar_constraint False"

definition remove_inequality_constraints :: "world \<Rightarrow> cresult" where
  "remove_inequality_constraints w =
     (case check (lua w) 1 of
        Inl e \<Rightarrow> Error e w
      | Inr holder \<Rightarrow>
          (case nlopt_remove_inequality_constraints (holder_d_obj (lua w) holder) w of
             (status, w) \<Rightarrow> Ok 1 (w\<lparr>lua := lua_pushinteger (lua w) status\<rparr>)))"

definition remove_equality_constraints :: "world \<Rightarrow> cresult" where
  "remove_equality_constraints w =
     (case check (lua w) 1 of
        Inl e \<Rightarrow> Error e w
      | Inr holder \<Rightarrow>
          (case nlopt_remove_equality_constraints (holder_d_obj (lua w) holder) w of
             (status, w) \<Rightarrow> Ok 1 (w\<lparr>lua := lua_pushinteger (lua w) status\<rparr>)))"

definition add_mconstraint :: "bool \<Rightarrow> world \<Rightarrow> cresult" where
  \<comment> \<open>The common text of \<open>add_inequality_mconstraint\<close> (\<open>ineq\<close>) and
      \<open>add_equality_mconstraint\<close>. The arguments are the handle, the count \<open>m\<close>, the
      callable, its user data and, at index 5, the tolerances.\<close>
  "add_mconstraint ineq w =
     (case check (lua w) 1 of
        Inl e \<Rightarrow> Error e w
      | Inr holder \<Rightarrow>
          (case luaL_checkinteger (lua w) 2 of
             Inl e \<Rightarrow> Error e w
           | Inr mi \<Rightarrow>
               (let m = to_int mi
                in case luaL_checktype (lua w) 3 LUA_TFUNCTION of
                     Inl e \<Rightarrow> Error e w
                   | Inr _ \<Rightarrow>
                       if \<not> lua_isnil (lua w) 5 \<and> lua_istable (lua w) 5
                       then Error (ArgError 5 ''expecting table or nil'') w
                       else
                         (case new_closure w 3 4 of
                            (ctx, w) \<Rightarrow>
                              (let native = (if ineq then nlopt_add_inequality_mconstraint
                                             else nlopt_add_equality_mconstraint)
                               in if lua_isnil (lua w) 5 then
                                    (case native (holder_d_obj (lua w) holder) (to_unsigned m)
                                            Mfunc (Some ctx) None w of
                                       (status, w) \<Rightarrow>
                                         Ok 1 (w\<lparr>lua := lua_pushinteger (lua w) status\<rparr>))
                                  else if m < 0 then Error (CppException ''std::length_error'') w
                                  else
                                    (case read_vector (lua w) 5 (nat m) of
                                       Inl e \<Rightarrow> Error e w
                                     | Inr (tol, L) \<Rightarrow>
                                         (case native (holder_d_obj L holder)
                                                 (double_to_unsigned (lua_tonumber L 2))
                                                 Mfunc (Some ctx) (Some tol) (w\<lparr>lua := L\<rparr>) of
                                            (status, w) \<Rightarrow>
                                              Ok 1 (w\<lparr>lua :=
                                                      lua_pushinteger (lua w) status\<rparr>))))))))"

definition add_inequality_mconstraint :: "world \<Rightarrow> cresult" where
  "add_inequality_mconstraint = add_mconstraint True"

definition add_equality_mconstraint :: "world \<Rightarrow> cresult" where
  "add_equality_mconstraint = add_mconstraint False"



subsection \<open>Auxiliary notions for the statements\<close>

text \<open>The value that \<open>scratch_table\<close> leaves on top of the stack: the record's
  table of that name if there is one, and otherwise the table it creates.\<close>

definition scratch_value :: "lua_State \<Rightarrow> int \<Rightarrow> string \<Rightarrow> lvalue" where
  "scratch_value L t name =
     (let v = table_get (heap L) (index2val (lua_pushliteral L name) t) (KStr name)
      in if ttype v = LUA_TTABLE then v else LTable (ntables (heap L)))"

text \<open>\<open>lua_tonumber\<close> applied to a value rather than to a stack index.\<close>

definition tonum :: "lua_State \<Rightarrow> lvalue \<Rightarrow> double" where
  "tonum L v = (case luaV_tonumber L v of Some d \<Rightarrow> d | None \<Rightarrow> zero_double)"

text \<open>A state with one registered closure whose callable always raises: the registry
  holds the record (table 1) under reference 1, and the record holds function 0.\<close>

definition raising_state :: lua_State where
  "raising_state =
     \<lparr>stack = [],
      heap = \<lparr>tables = (\<lambda>a. empty_table)
                 (0 := empty_table(KInt 1 := LTable 1),
                  1 := empty_table(KStr ''f'' := LFunction 0)),
              ntables = 2,
              udata = (\<lambda>u. \<lparr>block = \<lparr>d_obj = None\<rparr>, metatable = LNil\<rparr>),
              nudata = 0, reg_free = [], reg_len = 1\<rparr>,
      funs = (\<lambda>fid args h. Raises (LString ''boom'') h),
      str2d = (\<lambda>s. None)\<rparr>"

text \<open>A state with one registered vector constraint of two outputs over dimension two.
  Its callable stores the results 1.0, 2.0 and the four Jacobian entries 2.0, 3.0, 4.0, 5.0
  into the tables it is given.\<close>

definition one_d :: double where "one_d = Double False 1023 0"
definition two_d :: double where "two_d = Double False 1024 0"
definition three_d :: double where "three_d = Double False 1024 (2 ^ 51)"
definition four_d :: double where "four_d = Double False 1025 0"
definition five_d :: double where "five_d = Double False 1025 (2 ^ 50)"

definition jacobian_writer :: hostfun where
  "jacobian_writer args h =
     (case args of
        [vm, LTable r, vn, vx, LTable g, vd] \<Rightarrow>
          Returns []
            (table_set (table_set (table_set (table_set (table_set (table_set h
               (LTable r) (KInt 1) (LNumber one_d))
               (LTable r) (KInt 2) (LNumber two_d))
               (LTable g) (KInt 1) (LNumber two_d))
               (LTable g) (KInt 2) (LNumber three_d))
               (LTable g) (KInt 3) (LNumber four_d))
               (LTable g) (KInt 4) (LNumber five_d))
      | _ \<Rightarrow> Raises (LString ''unexpected arguments'') h)"

definition jacobian_state :: lua_State where
  "jacobian_state =
     \<lparr>stack = [],
      heap = \<lparr>tables = (\<lambda>a. empty_table)
                 (0 := empty_table(KInt 1 := LTable 1),
                  1 := empty_table(KStr ''f'' := LFunction 0)),
              ntables = 2,
              udata = (\<lambda>u. \<lparr>block = \<lparr>d_obj = None\<rparr>, metatable = LNil\<rparr>),
              nudata = 0, reg_free = [], reg_len = 1\<rparr>,
      funs = (\<lambda>fid. jacobian_writer),
      str2d = (\<lambda>s. None)\<rparr>"

text \<open>A call of an adapter function with the given arguments, and a world with the
  adapter's metatable registered (table 1), room for eight native optimizers, 42 known
  algorithms that all accept constraints, and an iteration that stops at once.\<close>

definition call :: "world \<Rightarrow> lvalue list \<Rightarrow> world" where
  "call w args = w\<lparr>lua := (lua w)\<lparr>stack := args\<rparr>\<rparr>"

definition base_world :: world where
  "base_world =
     \<lparr>lua = \<lparr>stack = [],
             heap = \<lparr>tables = (\<lambda>a. empty_table)
                        (0 := empty_table(KStr ''nlopt_opt'' := LTable 1)),
                     ntables = 2,
                     udata = (\<lambda>u. \<lparr>block = \<lparr>d_obj = None\<rparr>, metatable = LNil\<rparr>),
                     nudata = 0, reg_free = [], reg_len = 0\<rparr>,
             funs = (\<lambda>fid args h. Returns [LNumber zero_double] h),
             str2d = (\<lambda>s. None)\<rparr>,
      ctxs = (\<lambda>p. None), nctxs = 0,
      opts = (\<lambda>p. None), nopts = 0,
      native_memory = 8, rng_seed = None, undefined_behaviour = False,
      lib = \<lparr>NLOPT_NUM_ALGORITHMS = 42, inequality_ok = (\<lambda>a. True), equality_ok = (\<lambda>a. True),
             iteration = (\<lambda>opt x. Stop 1 x (Some zero_double))\<rparr>\<rparr>"

text \<open>A world with one handle: userdata 0 points to optimizer 0, of algorithm 1 and
  dimension 2, with both hooks installed and no closures; table 2 is the sequence
  1.0, 2.0.\<close>

definition handle_world :: world where
  "handle_world =
     base_world
       \<lparr>lua := (lua base_world)
          \<lparr>heap := (heap (lua base_world))
             \<lparr>tables := (tables (heap (lua base_world)))
                  (2 := empty_table(KInt 1 := LNumber one_d, KInt 2 := LNumber two_d)),
              ntables := 3,
              udata := (udata (heap (lua base_world)))
                  (0 := \<lparr>block = \<lparr>d_obj = Some 0\<rparr>, metatable = LTable 1\<rparr>),
              nudata := 1\<rparr>\<rparr>,
        opts := (opts base_world)
          (0 := Some \<lparr>opt_algorithm = 1, opt_n = 2, opt_f = None, opt_f_data = None,
                      opt_maximize = False,
                      opt_lb = [minus_infinity, minus_infinity],
                      opt_ub = [plus_infinity, plus_infinity], opt_fc = [], opt_h = [],
                      opt_xtol_abs = [zero_double, zero_double],
                      opt_munge_on_destroy = Some Munge_on_destroy,
                      opt_munge_on_copy = Some Munge_on_copy\<rparr>),
        nopts := 1, native_memory := 7\<rparr>"

text \<open>The doubles that \<open>lua_tonumber\<close> reads from entries 1 to \<open>n\<close> of a table, and
  a table after the doubles \<open>xs\<close> have been stored into its entries 1 to \<open>n\<close>.\<close>

definition table_doubles :: "lua_State \<Rightarrow> nat \<Rightarrow> nat \<Rightarrow> double list" where
  "table_doubles L tv n = map (\<lambda>i. tonum L (tables (heap L) tv (KInt (int i + 1)))) [0..<n]"

definition store_doubles :: "ltable \<Rightarrow> double list \<Rightarrow> nat \<Rightarrow> ltable" where
  "store_doubles t xs n =
     (\<lambda>k. case k of
             KInt j \<Rightarrow> (if 1 \<le> j \<and> j \<le> int n then LNumber (xs ! nat (j - 1)) else t k)
           | _ \<Rightarrow> t k)"

text \<open>Setting a sequence and getting it back: the setter returns one value; the getter,
  called on the same handle afterwards, returns the native status and a table whose
  entries 1 to \<open>length v\<close> are the doubles of \<open>v\<close> and which has no other entry.\<close>

abbreviation round_trip ::
  "(world \<Rightarrow> cresult) \<Rightarrow> (world \<Rightarrow> cresult) \<Rightarrow> world \<Rightarrow> nat \<Rightarrow> double list \<Rightarrow> bool" where
  "round_trip setter getter w u v \<equiv>
     (\<exists>w1 w2 a. setter w = Ok 1 w1
        \<and> getter (call w1 [LUserdata u]) = Ok 2 w2
        \<and> results 2 w2 = [LNumber (cast_num NLOPT_SUCCESS), LTable a]
        \<and> (\<forall>i<length v. tables (heap (lua w2)) a (KInt (int i + 1)) = LNumber (v ! i))
        \<and> (\<forall>k. (\<forall>i<length v. k \<noteq> KInt (int i + 1)) \<longrightarrow> tables (heap (lua w2)) a k = LNil))"

text \<open>The state in which \<open>func\<close> reaches its \<open>lua_pcall\<close>: the record and the callable
  have been fetched and the four arguments pushed. The callable is then run on the top
  \<open>nargs\<close> stack entries and the heap of that state.\<close>

definition func_call_state ::
  "lua_State \<Rightarrow> nat \<Rightarrow> double list \<Rightarrow> double list option \<Rightarrow> callback_context \<Rightarrow> lua_State" where
  "func_call_state L n x grad ctx =
     (let L = lua_rawgeti L LUA_REGISTRYINDEX (ref ctx);
          t = lua_gettop L;
          L = lua_pushliteral L ''f'';
          L = lua_rawget L t
      in func_args L t n x grad)"

definition call_arguments :: "lua_State \<Rightarrow> nat \<Rightarrow> lvalue list" where
  "call_arguments L nargs = drop (length (stack L) - nargs) (stack L)"

text \<open>A state with one registered closure whose callable raises when it is given no
  gradient table and returns 1.0 otherwise.\<close>

definition gradient_only :: hostfun where
  "gradient_only args h =
     (case args of
        [vn, vx, LNil, vd] \<Rightarrow> Raises (LString ''no gradient'') h
      | _ \<Rightarrow> Returns [LNumber one_d] h)"

definition gradient_only_state :: lua_State where
  "gradient_only_state = raising_state\<lparr>funs := (\<lambda>fid. gradient_only)\<rparr>"

section \<open>Properties\<close>

subsection \<open>Stack effects of the API calls\<close>

lemma push_simps [simp]:
  "stack (push L v) = stack L @ [v]" "heap (push L v) = heap L"
  "funs (push L v) = funs L" "str2d (push L v) = str2d L"
  by (simp_all add: push_def)

lemma lua_pop_simps [simp]:
  "stack (lua_pop L n) = take (length (stack L) - n) (stack L)" "heap (lua_pop L n) = heap L"
  "funs (lua_pop L n) = funs L" "str2d (lua_pop L n) = str2d L"
  by (simp_all add: lua_pop_def)

lemma index2val_top [simp]: "stack L = st @ [v] \<Longrightarrow> index2val L (- 1) = v"
  by (simp add: index2val_def index2adr_def LUA_REGISTRYINDEX_def)

lemma index2val_top2 [simp]: "stack L = st @ [u, v] \<Longrightarrow> index2val L (- 2) = u"
  by (simp add: index2val_def index2adr_def LUA_REGISTRYINDEX_def nth_append)

lemma index2val_abs:
  "0 < i \<Longrightarrow> nat i \<le> length st \<Longrightarrow> stack L = st @ rest \<Longrightarrow> index2val L i = st ! (nat i - 1)"
  by (auto simp add: index2val_def index2adr_def nth_append)

lemma fill_loop_stack [simp]: "stack (fill_loop L tidx xs n) = stack L"
  by (induction n) (simp_all add: fill_loop_def lua_rawseti_def lua_pushnumber_def Let_def)

lemma fill_loop_funs [simp]: "funs (fill_loop L tidx xs n) = funs L"
  by (induction n) (simp_all add: fill_loop_def lua_rawseti_def lua_pushnumber_def Let_def)

lemma key_of_str [simp]: "key_of (LString s) = KStr s"
  by (simp add: key_of_def)

lemma scratch_table_stack [simp]:
  "stack (scratch_table L t name) = stack L @ [scratch_value L t name]"
  by (simp add: scratch_table_def scratch_value_def Let_def lua_pushliteral_def lua_rawget_def lua_newtable_def
      lua_pushvalue_def lua_rawset_def lua_istable_def lua_type_def index2val_def index2adr_def LUA_REGISTRYINDEX_def
      split: option.splits)

lemma scratch_table_funs [simp]: "funs (scratch_table L t name) = funs L"
  by (simp add: scratch_table_def Let_def lua_pushliteral_def lua_rawget_def lua_newtable_def
      lua_pushvalue_def lua_rawset_def)

lemma no_gradient_stack [simp]: "stack (no_gradient L t) = stack L @ [LNil]"
  by (simp add: no_gradient_def Let_def lua_pushliteral_def lua_pushnil_def lua_rawset_def)

lemma no_gradient_funs [simp]: "funs (no_gradient L t) = funs L"
  by (simp add: no_gradient_def Let_def lua_pushliteral_def lua_pushnil_def lua_rawset_def)

lemma func_args_stack:
  "\<exists>vn vx vg vd. stack (func_args L t n x grad) = stack L @ [vn, vx, vg, vd]"
  by (simp add: func_args_def Let_def lua_pushliteral_def lua_rawget_def lua_pushinteger_def
      split: option.splits)

lemma func_args_funs [simp]: "funs (func_args L t n x grad) = funs L"
  by (simp add: func_args_def Let_def lua_pushliteral_def lua_rawget_def lua_pushinteger_def
      split: option.splits)


lemma index2val_registry [simp]: "index2val L LUA_REGISTRYINDEX = LTable registry_addr"
  by (simp add: index2val_def index2adr_def LUA_REGISTRYINDEX_def)

lemma index2val_neg:
  "stack L = st @ vs \<Longrightarrow> 0 < k \<Longrightarrow> k \<le> length vs \<Longrightarrow> k < 10000 \<Longrightarrow>
   index2val L (- int k) = vs ! (length vs - k)"
  by (auto simp add: index2val_def index2adr_def LUA_REGISTRYINDEX_def nth_append)

lemma lua_type_top [simp]: "stack L = st @ [v] \<Longrightarrow> lua_type L (- 1) = ttype v"
  by (simp add: lua_type_def index2adr_def LUA_REGISTRYINDEX_def)

lemma index2val_first_above:
  "stack L = st @ v # rest \<Longrightarrow> index2val L (int (length st) + 1) = v"
  by (simp add: index2val_def index2adr_def nat_add_distrib nth_append)

lemma lua_pcall_raises:
  assumes "stack L = st @ LFunction fid # args" "length args = nargs" "nargs < 9999"
    and "funs L fid args (heap L) = Raises msg h"
  shows "lua_pcall L nargs nresults = (LUA_ERRRUN, L\<lparr>stack := st @ [msg], heap := h\<rparr>)"
proof -
  have "index2val L (- int (Suc nargs)) = (LFunction fid # args) ! (length (LFunction fid # args) - Suc nargs)"
    by (rule index2val_neg[OF assms(1)]) (use assms in auto)
  moreover have "index2val L (- int nargs - 1) = index2val L (- int (Suc nargs))"
    by (rule arg_cong[where f="index2val L"]) simp
  ultimately have f: "index2val L (- int nargs - 1) = LFunction fid"
    using assms(2) by (simp del: of_nat_Suc)
  show ?thesis
    using assms f by (simp add: lua_pcall_def Let_def)
qed

subsection \<open>The gradient argument of a derivative-free call\<close>

lemma fill_loop_str2d [simp]: "str2d (fill_loop L tidx xs n) = str2d L"
  by (induction n) (simp_all add: fill_loop_def lua_rawseti_def lua_pushnumber_def Let_def)

lemma index2val_abs_append:
  "stack L = st @ v # rest \<Longrightarrow> stack L' = stack L @ more' \<Longrightarrow> index2val L' (int (length st) + 1) = v"
  by (rule index2val_first_above[where rest="rest @ more'"]) simp

lemma no_gradient_slot:
  assumes "index2val (lua_pushnil (lua_pushliteral L ''grad'')) t = LTable a"
  shows "tables (heap (no_gradient L t)) a (KStr ''grad'') = LNil"
  using assms
  by (simp add: no_gradient_def Let_def lua_rawset_def lua_pushnil_def lua_pushliteral_def table_set_def)

lemma rawget_heap [simp]: "heap (lua_rawget L t) = heap L"
  by (simp add: lua_rawget_def Let_def)

lemma pushliteral_simps [simp]:
  "stack (lua_pushliteral L s) = stack L @ [LString s]" "heap (lua_pushliteral L s) = heap L"
  "funs (lua_pushliteral L s) = funs L"
  by (simp_all add: lua_pushliteral_def)

lemma pushinteger_simps [simp]:
  "stack (lua_pushinteger L k) = stack L @ [LNumber (cast_num k)]" "heap (lua_pushinteger L k) = heap L"
  "funs (lua_pushinteger L k) = funs L"
  by (simp_all add: lua_pushinteger_def)

lemma rawget_stack:
  "stack L = st @ [k] \<Longrightarrow> stack (lua_rawget L t) = st @ [table_get (heap L) (index2val L t) (key_of k)]"
  by (simp add: lua_rawget_def Let_def)

lemma func_args_nil:
  assumes st: "stack L = st @ [LTable a, fv]" and t: "t = int (length st) + 1"
  shows "\<exists>vx. stack (func_args L t n x None)
            = stack L @ [LNumber (cast_num (int n)), vx, LNil,
                         tables (heap (func_args L t n x None)) a (KStr ''f_data'')]
          \<and> tables (heap (func_args L t n x None)) a (KStr ''grad'') = LNil"
proof -
  define L2 where "L2 = fill_loop (scratch_table (lua_pushinteger L (int n)) t ''x'')
       (lua_gettop (scratch_table (lua_pushinteger L (int n)) t ''x'')) x n"
  define L3 where "L3 = no_gradient L2 t"
  define L4 where "L4 = lua_pushliteral L3 ''f_data''"
  have s2: "stack L2 = stack L @ [LNumber (cast_num (int n)), scratch_value (lua_pushinteger L (int n)) t ''x'']"
    by (simp add: L2_def)
  have "index2val (lua_pushnil (lua_pushliteral L2 ''grad'')) t = LTable a"
    unfolding t by (rule index2val_abs_append[OF st]) (simp add: s2 lua_pushnil_def)
  then have slot: "tables (heap L3) a (KStr ''grad'') = LNil"
    unfolding L3_def by (rule no_gradient_slot)
  have s4: "stack L4 = (stack L2 @ [LNil]) @ [LString ''f_data'']"
    by (simp add: L4_def L3_def)
  have i4: "index2val L4 t = LTable a"
    unfolding t by (rule index2val_abs_append[OF st]) (simp add: s4 s2)
  have h4: "heap L4 = heap L3"
    by (simp add: L4_def)
  have e: "func_args L t n x None = lua_rawget L4 t"
    by (simp add: func_args_def Let_def L4_def L3_def L2_def)
  have h: "heap (lua_rawget L4 t) = heap L3"
    by (simp add: h4)
  have "stack (lua_rawget L4 t) = (stack L2 @ [LNil]) @ [table_get (heap L4) (index2val L4 t) (key_of (LString ''f_data''))]"
    by (rule rawget_stack[OF s4])
  then have "stack (lua_rawget L4 t) = stack L @ [LNumber (cast_num (int n)), scratch_value (lua_pushinteger L (int n)) t ''x'', LNil,
       tables (heap L3) a (KStr ''f_data'')]"
    using h4 by (simp add: i4 s2 table_get_def)
  then show ?thesis
    using slot by (simp add: e h4)
qed


lemma lua_pcall_call:
  assumes "stack L = st @ LFunction fid # args" "length args = nargs" "nargs < 9999"
  shows "lua_pcall L nargs nresults =
     (case funs L fid args (heap L) of
        Returns rs h \<Rightarrow> (0, L\<lparr>stack := st @ adjust_results nresults rs, heap := h\<rparr>)
      | Raises msg h \<Rightarrow> (LUA_ERRRUN, L\<lparr>stack := st @ [msg], heap := h\<rparr>))"
proof -
  have "index2val L (- int (Suc nargs)) = (LFunction fid # args) ! (length (LFunction fid # args) - Suc nargs)"
    by (rule index2val_neg[OF assms(1)]) (use assms in auto)
  moreover have "index2val L (- int nargs - 1) = index2val L (- int (Suc nargs))"
    by (rule arg_cong[where f="index2val L"]) simp
  ultimately have f: "index2val L (- int nargs - 1) = LFunction fid"
    using assms(2) by (simp del: of_nat_Suc)
  have tk: "take (length (stack L) - Suc nargs) (stack L) = st"
    and dr: "drop (length (stack L) - nargs) (stack L) = args"
    using assms by simp_all
  show ?thesis
    by (simp add: lua_pcall_def Let_def f tk dr split: call_result.split)
qed

lemma func_prefix:
  assumes rec: "table_get (heap L) (LTable registry_addr) (KInt (ref ctx)) = LTable a"
    and f: "tables (heap L) a (KStr ''f'') = LFunction fid"
  shows "lua_rawget (lua_pushliteral (lua_rawgeti L LUA_REGISTRYINDEX (ref ctx)) ''f'')
            (int (length (stack L)) + 1)
         = L\<lparr>stack := stack L @ [LTable a, LFunction fid]\<rparr>"
    and "lua_gettop (lua_rawgeti L LUA_REGISTRYINDEX (ref ctx)) = int (length (stack L)) + 1"
proof -
  define L1 where "L1 = lua_rawgeti L LUA_REGISTRYINDEX (ref ctx)"
  have s1: "L1 = L\<lparr>stack := stack L @ [LTable a]\<rparr>"
    by (simp add: L1_def lua_rawgeti_def rec push_def)
  show t: "lua_gettop (lua_rawgeti L LUA_REGISTRYINDEX (ref ctx)) = int (length (stack L)) + 1"
    by (simp add: L1_def[symmetric] s1 lua_gettop_def)
  have "index2val (lua_pushliteral L1 ''f'') (int (length (stack L)) + 1) = LTable a"
    by (rule index2val_first_above[where rest="[LString ''f'']"]) (simp add: s1)
  then show "lua_rawget (lua_pushliteral (lua_rawgeti L LUA_REGISTRYINDEX (ref ctx)) ''f'')
            (int (length (stack L)) + 1)
         = L\<lparr>stack := stack L @ [LTable a, LFunction fid]\<rparr>"
    unfolding L1_def[symmetric]
    by (simp add: lua_rawget_def Let_def table_get_def f s1 push_def lua_pop_def lua_pushliteral_def)
qed

lemma isfunction_top: "stack L = st @ [LFunction fid] \<Longrightarrow> lua_isfunction L (- 1)"
  by (simp add: lua_isfunction_def)

lemma func_args_heap_str2d [simp]: "str2d (func_args L t n x grad) = str2d L"
  by (simp add: func_args_def Let_def lua_pushliteral_def lua_rawget_def lua_pushinteger_def
       scratch_table_def lua_newtable_def lua_pushvalue_def lua_rawset_def no_gradient_def lua_pushnil_def
      split: option.splits)

lemma func_no_gradient:
  assumes rec: "table_get (heap L) (LTable registry_addr) (KInt (ref ctx)) = LTable a"
    and f: "tables (heap L) a (KStr ''f'') = LFunction fid"
  shows "\<exists>vx vd hc. tables hc a (KStr ''grad'') = LNil \<and>
     (case funs L fid [LNumber (cast_num (int n)), vx, LNil, vd] hc of
        Returns rs h \<Rightarrow>
          (\<exists>L'. func L n x None (Some ctx) = (tonum L (hd (adjust_results 1 rs)), None, L')
                 \<and> stack L' = stack L \<and> heap L' = h)
      | Raises msg h \<Rightarrow>
          (\<exists>L'. func L n x None (Some ctx) = (zero_double, None, L')
                 \<and> stack L' = stack L \<and> heap L' = h))"
proof -
  define Lp where "Lp = L\<lparr>stack := stack L @ [LTable a, LFunction fid]\<rparr>"
  define t where "t = int (length (stack L)) + 1"
  define Lc where "Lc = func_args Lp t n x None"
  have sp: "stack Lp = stack L @ [LTable a, LFunction fid]"
    by (simp add: Lp_def)
  obtain vx where sc: "stack Lc = stack Lp @ [LNumber (cast_num (int n)), vx, LNil,
                         tables (heap Lc) a (KStr ''f_data'')]"
    and slot: "tables (heap Lc) a (KStr ''grad'') = LNil"
    using func_args_nil[OF sp t_def, of n x] unfolding Lc_def by blast
  define args where "args = [LNumber (cast_num (int n)), vx, LNil, tables (heap Lc) a (KStr ''f_data'')]"
  have sc': "stack Lc = (stack L @ [LTable a]) @ LFunction fid # args"
    by (simp add: sc sp args_def)
  have pc: "lua_pcall Lc 4 1 =
     (case funs Lc fid args (heap Lc) of
        Returns rs h \<Rightarrow> (0, Lc\<lparr>stack := (stack L @ [LTable a]) @ adjust_results 1 rs, heap := h\<rparr>)
      | Raises msg h \<Rightarrow> (LUA_ERRRUN, Lc\<lparr>stack := (stack L @ [LTable a]) @ [msg], heap := h\<rparr>))"
    by (rule lua_pcall_call[OF sc']) (simp_all add: args_def)
  have fu: "funs Lc = funs L" and sd: "str2d Lc = str2d L"
    by (simp_all add: Lc_def Lp_def)
  have isf: "lua_isfunction Lp (- 1)"
    by (rule isfunction_top[where st="stack L @ [LTable a]"]) (simp add: sp)
  have fe: "func L n x None (Some ctx) =
       (case lua_pcall Lc 4 1 of
          (status, L) \<Rightarrow>
            if status = 0 then (lua_tonumber L (- 1), None, lua_pop (lua_pop L 1) 1)
            else (zero_double, None, lua_pop L 2))"
    using isf unfolding Lc_def t_def Lp_def
    by (simp add: func_def Let_def func_prefix[OF rec f] split: prod.split)
  have ar: "\<And>rs. \<exists>r. adjust_results 1 rs = [r]"
    by (case_tac rs) (simp_all add: adjust_results_def)
  have "case funs L fid args (heap Lc) of
        Returns rs h \<Rightarrow>
          (\<exists>L'. func L n x None (Some ctx) = (tonum L (hd (adjust_results 1 rs)), None, L')
                 \<and> stack L' = stack L \<and> heap L' = h)
      | Raises msg h \<Rightarrow>
          (\<exists>L'. func L n x None (Some ctx) = (zero_double, None, L')
                 \<and> stack L' = stack L \<and> heap L' = h)"
  proof (cases "funs L fid args (heap Lc)")
    case (Returns rs h)
    obtain r where r: "adjust_results 1 rs = [r]" using ar by blast
    have "index2val (Lc\<lparr>stack := (stack L @ [LTable a]) @ [r], heap := h\<rparr>) (- 1) = r"
      by (rule index2val_top[where st="stack L @ [LTable a]"]) simp
    moreover have "lua_pcall Lc 4 1 = (0, Lc\<lparr>stack := (stack L @ [LTable a]) @ [r], heap := h\<rparr>)"
      unfolding pc fu Returns using r by simp
    ultimately show ?thesis
      using Returns r unfolding fe
      by (simp add: tonum_def lua_tonumber_def luaV_tonumber_def sd split: lvalue.split)
  next
    case (Raises msg h)
    have "lua_pcall Lc 4 1 = (LUA_ERRRUN, Lc\<lparr>stack := (stack L @ [LTable a]) @ [msg], heap := h\<rparr>)"
      unfolding pc fu Raises by simp
    then show ?thesis
      using Raises unfolding fe by (simp add: LUA_ERRRUN_def)
  qed
  then show ?thesis
    using slot unfolding args_def by blast
qed


lemma read_loop_0 [simp]: "read_loop L tidx buf 0 = (buf, L)"
  by (simp add: read_loop_def)

lemma read_loop_Suc:
  "read_loop L tidx buf (Suc n) =
     (let p = read_loop L tidx buf n; L' = lua_rawgeti (snd p) tidx (int n + 1)
      in ((fst p)[n := lua_tonumber L' (- 1)], lua_pop L' 1))"
  by (simp add: read_loop_def Let_def split_beta)

lemma read_loop_stack [simp]: "stack (snd (read_loop L tidx buf n)) = stack L"
  by (induction n) (simp_all add: read_loop_Suc lua_rawgeti_def Let_def)

lemma read_loop_heap [simp]: "heap (snd (read_loop L tidx buf n)) = heap L"
  by (induction n) (simp_all add: read_loop_Suc lua_rawgeti_def Let_def)

lemma mfunc_args_funs [simp]: "funs (mfunc_args L t m r n x grad) = funs L"
  by (simp add: mfunc_args_def Let_def lua_pushliteral_def lua_rawget_def lua_pushinteger_def
      split: option.splits)

lemma scratch_table_str2d [simp]: "str2d (scratch_table L t name) = str2d L"
  by (simp add: scratch_table_def Let_def lua_pushliteral_def lua_rawget_def lua_newtable_def
      lua_pushvalue_def lua_rawset_def)

lemma no_gradient_str2d [simp]: "str2d (no_gradient L t) = str2d L"
  by (simp add: no_gradient_def Let_def lua_pushliteral_def lua_pushnil_def lua_rawset_def)

lemma mfunc_args_str2d [simp]: "str2d (mfunc_args L t m r n x grad) = str2d L"
  by (simp add: mfunc_args_def Let_def lua_pushliteral_def lua_rawget_def lua_pushinteger_def
      split: option.splits)

lemma mfunc_args_nil:
  assumes st: "stack L = st @ [LTable a, fv]" and t: "t = int (length st) + 1"
  shows "\<exists>vr vx. stack (mfunc_args L t m r n x None)
            = stack L @ [LNumber (cast_num (int m)), vr, LNumber (cast_num (int n)), vx, LNil,
                         tables (heap (mfunc_args L t m r n x None)) a (KStr ''f_data'')]
          \<and> tables (heap (mfunc_args L t m r n x None)) a (KStr ''grad'') = LNil"
proof -
  define La where "La = scratch_table (lua_pushinteger L (int m)) t ''result''"
  define Lb where "Lb = lua_pushinteger (fill_loop La (lua_gettop La) r m) (int n)"
  define L2 where "L2 = fill_loop (scratch_table Lb t ''x'') (lua_gettop (scratch_table Lb t ''x'')) x n"
  define L3 where "L3 = no_gradient L2 t"
  define L4 where "L4 = lua_pushliteral L3 ''f_data''"
  have s2: "stack L2 = stack L @ [LNumber (cast_num (int m)), scratch_value (lua_pushinteger L (int m)) t ''result'',
        LNumber (cast_num (int n)), scratch_value Lb t ''x'']"
    by (simp add: L2_def Lb_def La_def)
  have "index2val (lua_pushnil (lua_pushliteral L2 ''grad'')) t = LTable a"
    unfolding t by (rule index2val_abs_append[OF st]) (simp add: s2 lua_pushnil_def)
  then have slot: "tables (heap L3) a (KStr ''grad'') = LNil"
    unfolding L3_def by (rule no_gradient_slot)
  have s4: "stack L4 = (stack L2 @ [LNil]) @ [LString ''f_data'']"
    by (simp add: L4_def L3_def)
  have i4: "index2val L4 t = LTable a"
    unfolding t by (rule index2val_abs_append[OF st]) (simp add: s4 s2)
  have h4: "heap L4 = heap L3"
    by (simp add: L4_def)
  have e: "mfunc_args L t m r n x None = lua_rawget L4 t"
    by (simp add: mfunc_args_def Let_def L4_def L3_def L2_def Lb_def La_def)
  have "stack (lua_rawget L4 t) = (stack L2 @ [LNil]) @ [table_get (heap L4) (index2val L4 t) (key_of (LString ''f_data''))]"
    by (rule rawget_stack[OF s4])
  then have "stack (lua_rawget L4 t) = stack L @ [LNumber (cast_num (int m)), scratch_value (lua_pushinteger L (int m)) t ''result'',
        LNumber (cast_num (int n)), scratch_value Lb t ''x'', LNil,
       tables (heap L3) a (KStr ''f_data'')]"
    using h4 by (simp add: i4 s2 table_get_def)
  then show ?thesis
    using slot by (simp add: e h4)
qed

lemma mfunc_no_gradient:
  assumes rec: "table_get (heap L) (LTable registry_addr) (KInt (ref ctx)) = LTable a"
    and f: "tables (heap L) a (KStr ''f'') = LFunction fid"
  shows "\<exists>vr vx vd hc. tables hc a (KStr ''grad'') = LNil \<and>
     (case funs L fid [LNumber (cast_num (int m)), vr, LNumber (cast_num (int n)), vx, LNil, vd] hc of
        Returns rs h \<Rightarrow>
          (\<exists>L'. mfunc L m r n x None (Some ctx)
                  = (fst (read_loop (L\<lparr>stack := stack L @ [LTable a, tables h a (KStr ''result'')],
                                        heap := h\<rparr>)
                                    (int (length (stack L)) + 2) r m), None, L')
                 \<and> stack L' = stack L @ [LTable a] \<and> heap L' = h)
      | Raises msg h \<Rightarrow>
          (\<exists>L'. mfunc L m r n x None (Some ctx) = (r, None, L')
                 \<and> stack L' = stack L \<and> heap L' = h))"
proof -
  define Lp where "Lp = L\<lparr>stack := stack L @ [LTable a, LFunction fid]\<rparr>"
  define t where "t = int (length (stack L)) + 1"
  define Lc where "Lc = mfunc_args Lp t m r n x None"
  have sp: "stack Lp = stack L @ [LTable a, LFunction fid]"
    by (simp add: Lp_def)
  obtain vr vx where sc: "stack Lc = stack Lp @ [LNumber (cast_num (int m)), vr, LNumber (cast_num (int n)), vx, LNil,
                         tables (heap Lc) a (KStr ''f_data'')]"
    and slot: "tables (heap Lc) a (KStr ''grad'') = LNil"
    using mfunc_args_nil[OF sp t_def, of m r n x] unfolding Lc_def by blast
  define args where "args = [LNumber (cast_num (int m)), vr, LNumber (cast_num (int n)), vx, LNil, tables (heap Lc) a (KStr ''f_data'')]"
  have sc': "stack Lc = (stack L @ [LTable a]) @ LFunction fid # args"
    by (simp add: sc sp args_def)
  have pc: "lua_pcall Lc 6 0 =
     (case funs Lc fid args (heap Lc) of
        Returns rs h \<Rightarrow> (0, Lc\<lparr>stack := (stack L @ [LTable a]) @ adjust_results 0 rs, heap := h\<rparr>)
      | Raises msg h \<Rightarrow> (LUA_ERRRUN, Lc\<lparr>stack := (stack L @ [LTable a]) @ [msg], heap := h\<rparr>))"
    by (rule lua_pcall_call[OF sc']) (simp_all add: args_def)
  have fu: "funs Lc = funs L" and sd: "str2d Lc = str2d L"
    by (simp_all add: Lc_def Lp_def)
  have isf: "lua_isfunction Lp (- 1)"
    by (rule isfunction_top[where st="stack L @ [LTable a]"]) (simp add: sp)
  have fe: "mfunc L m r n x None (Some ctx) =
       (case lua_pcall Lc 6 0 of
          (status, L) \<Rightarrow>
            if status = 0 then
              (case read_loop (lua_rawget (lua_pushliteral L ''result'') t)
                     (lua_gettop (lua_rawget (lua_pushliteral L ''result'') t)) r m of
                 (result, L) \<Rightarrow> (result, None, lua_pop L 1))
            else (r, None, lua_pop L 2))"
    using isf unfolding Lc_def t_def Lp_def
    by (simp add: mfunc_def Let_def func_prefix[OF rec f] split: prod.split)
  have "case funs L fid args (heap Lc) of
        Returns rs h \<Rightarrow>
          (\<exists>L'. mfunc L m r n x None (Some ctx)
                  = (fst (read_loop (L\<lparr>stack := stack L @ [LTable a, tables h a (KStr ''result'')],
                                        heap := h\<rparr>)
                                    (int (length (stack L)) + 2) r m), None, L')
                 \<and> stack L' = stack L @ [LTable a] \<and> heap L' = h)
      | Raises msg h \<Rightarrow>
          (\<exists>L'. mfunc L m r n x None (Some ctx) = (r, None, L')
                 \<and> stack L' = stack L \<and> heap L' = h)"
  proof (cases "funs L fid args (heap Lc)")
    case (Returns rs h)
    define Lr where "Lr = Lc\<lparr>stack := (stack L @ [LTable a]) @ adjust_results 0 rs, heap := h\<rparr>"
    have pr: "lua_pcall Lc 6 0 = (0, Lr)"
      unfolding pc fu Returns Lr_def by simp
    have sr: "stack Lr = stack L @ [LTable a]"
      by (simp add: Lr_def adjust_results_def)
    have "index2val (lua_pushliteral Lr ''result'') t = LTable a"
      unfolding t_def by (rule index2val_first_above[where rest="[LString ''result'']"]) (simp add: sr)
    then have "lua_rawget (lua_pushliteral Lr ''result'') t
          = Lc\<lparr>stack := stack L @ [LTable a, tables h a (KStr ''result'')], heap := h\<rparr>"
      by (simp add: lua_rawget_def Let_def table_get_def sr push_def lua_pop_def lua_pushliteral_def Lr_def adjust_results_def)
    also have "\<dots> = L\<lparr>stack := stack L @ [LTable a, tables h a (KStr ''result'')], heap := h\<rparr>"
      by (rule lua_State.equality) (simp_all add: fu sd)
    finally have rg: "lua_rawget (lua_pushliteral Lr ''result'') t
          = L\<lparr>stack := stack L @ [LTable a, tables h a (KStr ''result'')], heap := h\<rparr>" .
    show ?thesis
      using Returns unfolding fe pr
      by (simp add: rg lua_gettop_def split_beta add.commute)
  next
    case (Raises msg h)
    have "lua_pcall Lc 6 0 = (LUA_ERRRUN, Lc\<lparr>stack := (stack L @ [LTable a]) @ [msg], heap := h\<rparr>)"
      unfolding pc fu Raises by simp
    then show ?thesis
      using Raises unfolding fe by (simp add: LUA_ERRRUN_def)
  qed
  then show ?thesis
    using slot unfolding args_def by blast
qed

text \<open>
  Claim C5. Let a closure be registered (the registry holds its record under the context's
  reference, and the record's field \<open>f\<close> is a host function). When the native side
  passes no gradient buffer, \<open>func\<close> behaves as the application of that function to
  exactly four arguments, the third of which is nil (not a table), in a heap where the
  record's \<open>grad\<close> slot has been set to nil; \<open>mfunc\<close> does the same with six
  arguments, the fifth of which is nil. What the trampoline returns is what that one
  application yields.
\<close>

theorem no_gradient_passes_nil:
  assumes rec: "table_get (heap L) (LTable registry_addr) (KInt (ref ctx)) = LTable a"
    and f: "tables (heap L) a (KStr ''f'') = LFunction fid"
  shows "(\<exists>vx vd hc. tables hc a (KStr ''grad'') = LNil \<and>
     (case funs L fid [LNumber (cast_num (int n)), vx, LNil, vd] hc of
        Returns rs h \<Rightarrow>
          (\<exists>L'. func L n x None (Some ctx) = (tonum L (hd (adjust_results 1 rs)), None, L')
                 \<and> stack L' = stack L \<and> heap L' = h)
      | Raises msg h \<Rightarrow>
          (\<exists>L'. func L n x None (Some ctx) = (zero_double, None, L')
                 \<and> stack L' = stack L \<and> heap L' = h)))
   \<and> (\<exists>vr vx vd hc. tables hc a (KStr ''grad'') = LNil \<and>
     (case funs L fid [LNumber (cast_num (int m)), vr, LNumber (cast_num (int n)), vx, LNil, vd] hc of
        Returns rs h \<Rightarrow>
          (\<exists>L'. mfunc L m r n x None (Some ctx)
                  = (fst (read_loop (L\<lparr>stack := stack L @ [LTable a, tables h a (KStr ''result'')],
                                        heap := h\<rparr>)
                                    (int (length (stack L)) + 2) r m), None, L')
                 \<and> stack L' = stack L @ [LTable a] \<and> heap L' = h)
      | Raises msg h \<Rightarrow>
          (\<exists>L'. mfunc L m r n x None (Some ctx) = (r, None, L')
                 \<and> stack L' = stack L \<and> heap L' = h)))"
  using func_no_gradient[OF rec f] mfunc_no_gradient[OF rec f] by blast

theorem no_gradient_passes_nil_witness:
  "table_get (heap raising_state) (LTable registry_addr) (KInt (ref \<lparr>ref = 1\<rparr>)) = LTable 1
   \<and> tables (heap raising_state) 1 (KStr ''f'') = LFunction 0
   \<and> (\<exists>L'. func raising_state 1 [cast_num 3] None (Some \<lparr>ref = 1\<rparr>) = (zero_double, None, L'))
   \<and> (\<exists>L'. mfunc raising_state 1 [cast_num 7] 1 [cast_num 3] None (Some \<lparr>ref = 1\<rparr>)
             = ([cast_num 7], None, L'))"
proof -
  have a: "table_get (heap raising_state) (LTable registry_addr) (KInt (ref \<lparr>ref = 1\<rparr>)) = LTable 1"
    by (simp add: raising_state_def table_get_def registry_addr_def)
  have b: "tables (heap raising_state) 1 (KStr ''f'') = LFunction 0"
    by (simp add: raising_state_def)
  have c: "\<And>args h. funs raising_state 0 args h = Raises (LString ''boom'') h"
    by (simp add: raising_state_def)
  show ?thesis
    using a b no_gradient_passes_nil[OF a b, of 1 "[cast_num 3]" 1 "[cast_num 7]"]
    unfolding c by auto
qed

subsection \<open>Copying a vector constraint's outputs back\<close>

lemmas lua_defs = index2adr_def index2val_def lua_type_def lua_isnil_def lua_istable_def
  lua_isfunction_def lua_gettop_def push_def lua_pop_def lua_pushnil_def lua_pushnumber_def
  lua_pushinteger_def lua_pushliteral_def lua_pushvalue_def luaV_tonumber_def lua_tonumber_def
  lua_isnumber_def lua_tointeger_def table_get_def table_set_def lua_rawget_def lua_rawgeti_def
  lua_rawset_def lua_rawseti_def lua_newtable_def lua_createtable_def lua_pcall_def
  adjust_results_def LUA_REGISTRYINDEX_def registry_addr_def LUA_ERRRUN_def empty_table_def

lemma upt_0_1: "[0..<1] = [0]"
  by (simp add: upt_rec)

lemma upt_0_2: "[0..<2] = [0, 1]"
  by (simp add: upt_rec)

lemma upt_0_4: "[0..<4] = [0, 1, 2, 3]"
  by (simp add: upt_rec)

lemma read_loop_beyond: "n \<le> i \<Longrightarrow> fst (read_loop L tidx buf n) ! i = buf ! i"
  by (induction n) (simp_all add: read_loop_Suc Let_def)

lemma read_loop_length [simp]: "length (fst (read_loop L tidx buf n)) = length buf"
  by (induction n) (simp_all add: read_loop_Suc Let_def)

text \<open>Whatever the callable does, \<open>mfunc\<close> hands the gradient buffer back with every
  entry from index \<open>n\<close> on as it received it: the loop that copies the gradient table
  back runs over \<open>n\<close> entries, while the loop that filled the table ran over
  \<open>n * m\<close>.\<close>

lemma mfunc_gradient_beyond_n:
  assumes "n \<le> i"
  shows "\<exists>g'. fst (snd (mfunc L m r n x (Some g) f_data)) = Some g' \<and> g' ! i = g ! i"
  using assms
  by (simp add: mfunc_def Let_def read_loop_beyond split_beta split: option.split)

text \<open>
  Claim C2, at a failing input. The closure of \<open>jacobian_state\<close> is called for
  \<open>m = 2\<close> outputs over dimension \<open>n = 2\<close> with a gradient buffer of four zeros. The
  callable writes both results and all four gradient entries into its tables. \<open>mfunc\<close>
  copies the two results back, but only the first two gradient entries: the native
  buffer keeps 0.0 at entries 3 and 4, where the gradient table holds 4.0 and 5.0.
\<close>

theorem mfunc_gradient_copy_back_short:
  "fst (mfunc jacobian_state 2 [zero_double, zero_double] 2 [one_d, one_d]
          (Some [zero_double, zero_double, zero_double, zero_double]) (Some \<lparr>ref = 1\<rparr>))
     = [one_d, two_d]
   \<and> fst (snd (mfunc jacobian_state 2 [zero_double, zero_double] 2 [one_d, one_d]
          (Some [zero_double, zero_double, zero_double, zero_double]) (Some \<lparr>ref = 1\<rparr>)))
     = Some [two_d, three_d, zero_double, zero_double]
   \<and> map (table_get
            (heap (snd (snd (mfunc jacobian_state 2 [zero_double, zero_double] 2 [one_d, one_d]
                (Some [zero_double, zero_double, zero_double, zero_double]) (Some \<lparr>ref = 1\<rparr>)))))
            (table_get
              (heap (snd (snd (mfunc jacobian_state 2 [zero_double, zero_double] 2 [one_d, one_d]
                (Some [zero_double, zero_double, zero_double, zero_double]) (Some \<lparr>ref = 1\<rparr>)))))
              (LTable 1) (KStr ''grad'')))
         [KInt 1, KInt 2, KInt 3, KInt 4]
     = [LNumber two_d, LNumber three_d, LNumber four_d, LNumber five_d]"
  by (simp add: mfunc_def mfunc_args_def scratch_table_def fill_loop_def read_loop_def
      no_gradient_def jacobian_state_def jacobian_writer_def lua_defs Let_def upt_0_2 upt_0_4
      key_of_def cong: let_weak_cong)

subsection \<open>Seeding the native random generator\<close>












subsection \<open>Creating a handle\<close>

lemma table_get_updates [simp]:
  "table_get (h\<lparr>udata := u\<rparr>) = table_get h"
  "table_get (h\<lparr>nudata := nu\<rparr>) = table_get h"
  "table_get (h\<lparr>ntables := nt\<rparr>) = table_get h"
  "table_get (h\<lparr>reg_free := rf\<rparr>) = table_get h"
  "table_get (h\<lparr>reg_len := rl\<rparr>) = table_get h"
  by (simp_all add: table_get_def fun_eq_iff split: lvalue.split)

lemma to_int_id: "0 \<le> a \<Longrightarrow> a < 2 ^ 31 \<Longrightarrow> to_int a = a"
  by (simp add: to_int_def)

lemma create_bad_algorithm:
  assumes "luaL_checkinteger (lua w) 1 = Inr a" "a < 0 \<or> a \<ge> NLOPT_NUM_ALGORITHMS (lib w)"
  shows "create w = Error (ArgError 1 ''expecting nlopt.algorithm'') w"
  using assms by (auto simp add: create_def)

lemma create_bad_dimension:
  assumes "luaL_checkinteger (lua w) 2 = Inr n" "n < 0"
  shows "\<exists>k msg. create w = Error (ArgError k msg) w"
  using assms
  by (auto simp add: create_def luaL_checkinteger_def Let_def split: sum.split if_splits)

lemma create_out_of_memory:
  assumes "luaL_checkinteger (lua w) 1 = Inr a" "0 \<le> a" "a < NLOPT_NUM_ALGORITHMS (lib w)"
    and "luaL_checkinteger (lua w) 2 = Inr n" "0 \<le> n" "native_memory w = 0"
  shows "create w = Error (RuntimeError ''nlopt_create out of memory'') w"
  using assms by (simp add: create_def nlopt_create_def)

lemma create_success:
  assumes a: "luaL_checkinteger (lua w) 1 = Inr a" "0 \<le> a" "a < NLOPT_NUM_ALGORITHMS (lib w)"
    and num: "NLOPT_NUM_ALGORITHMS (lib w) \<le> 2 ^ 31"
    and n: "luaL_checkinteger (lua w) 2 = Inr n" "0 \<le> n"
    and mem: "0 < native_memory w"
    and mt: "table_get (heap (lua w)) (LTable registry_addr) (KStr nlopt_metaName) = LTable mt"
  shows "\<exists>w' opt. create w = Ok 1 w'
           \<and> results 1 w' = [LUserdata (nudata (heap (lua w)))]
           \<and> holder_d_obj (lua w') (nudata (heap (lua w))) = Some (nopts w)
           \<and> metatable (udata (heap (lua w')) (nudata (heap (lua w)))) = LTable mt
           \<and> opts w' (nopts w) = Some opt
           \<and> opt_algorithm opt = a \<and> opt_n opt = to_unsigned n
           \<and> opt_munge_on_destroy opt = Some Munge_on_destroy
           \<and> opt_munge_on_copy opt = Some Munge_on_copy
           \<and> opt_f opt = None \<and> opt_f_data opt = None \<and> opt_fc opt = [] \<and> opt_h opt = []"
proof -
  have ta: "to_int a = a"
    using a num by (intro to_int_id) simp_all
  show ?thesis
    using a n mem mt
    by (simp add: create_def nlopt_create_def ta Let_def nlopt_set_munge_def lua_newuserdata_def
        set_holder_d_obj_def luaL_getmetatable_def lua_istable_def lua_type_def index2adr_def
        LUA_REGISTRYINDEX_def lua_setmetatable_def index2val_def results_def holder_d_obj_def
        nth_append)
qed


text \<open>
  Claim C7. Let \<open>a\<close> and \<open>n\<close> be the integers read from the two arguments.
  (1) If \<open>a\<close> is negative or not below the algorithm count, \<open>create\<close> raises the
  argument error for argument 1 and the world is unchanged, so no native call was made.
  (2) If \<open>n\<close> is negative, it raises an argument error and the world is unchanged.
  (3) If both are valid and the native allocation gives NULL, it raises the out-of-memory
  error; the world is unchanged, so no userdata was made. (4) If both are valid, the
  allocation succeeds and the metatable is registered, it returns one value, a new
  userdata carrying that metatable and pointing to a new optimizer of algorithm \<open>a\<close>
  and dimension \<open>n\<close> with no closures and with both hooks installed.
\<close>

theorem create_contract:
  "(luaL_checkinteger (lua w) 1 = Inr a \<and> (a < 0 \<or> a \<ge> NLOPT_NUM_ALGORITHMS (lib w))
      \<longrightarrow> create w = Error (ArgError 1 ''expecting nlopt.algorithm'') w)
   \<and> (luaL_checkinteger (lua w) 2 = Inr n \<and> n < 0
      \<longrightarrow> (\<exists>k msg. create w = Error (ArgError k msg) w))
   \<and> (luaL_checkinteger (lua w) 1 = Inr a \<and> 0 \<le> a \<and> a < NLOPT_NUM_ALGORITHMS (lib w)
       \<and> luaL_checkinteger (lua w) 2 = Inr n \<and> 0 \<le> n \<and> native_memory w = 0
      \<longrightarrow> create w = Error (RuntimeError ''nlopt_create out of memory'') w)
   \<and> (luaL_checkinteger (lua w) 1 = Inr a \<and> 0 \<le> a \<and> a < NLOPT_NUM_ALGORITHMS (lib w)
       \<and> NLOPT_NUM_ALGORITHMS (lib w) \<le> 2 ^ 31
       \<and> luaL_checkinteger (lua w) 2 = Inr n \<and> 0 \<le> n \<and> 0 < native_memory w
       \<and> table_get (heap (lua w)) (LTable registry_addr) (KStr nlopt_metaName) = LTable mt
      \<longrightarrow> (\<exists>w' opt. create w = Ok 1 w'
           \<and> results 1 w' = [LUserdata (nudata (heap (lua w)))]
           \<and> holder_d_obj (lua w') (nudata (heap (lua w))) = Some (nopts w)
           \<and> metatable (udata (heap (lua w')) (nudata (heap (lua w)))) = LTable mt
           \<and> opts w' (nopts w) = Some opt
           \<and> opt_algorithm opt = a \<and> opt_n opt = to_unsigned n
           \<and> opt_munge_on_destroy opt = Some Munge_on_destroy
           \<and> opt_munge_on_copy opt = Some Munge_on_copy
           \<and> opt_f opt = None \<and> opt_f_data opt = None \<and> opt_fc opt = [] \<and> opt_h opt = []))"
  using create_bad_algorithm[of w a] create_bad_dimension[of w n]
    create_out_of_memory[of w a n] create_success[of w a n mt]
  by blast

lemmas check_defs = luaL_checkinteger_def lua_tointeger_def lua_isnumber_def
  luaV_tonumber_def index2val_def index2adr_def lua_number2integer_def double_to_int_def
  lua_Integer_bits_def Let_def

theorem create_contract_witness:
  "create (call base_world [LNumber (Double False 1028 (5 * 2 ^ 48)), LNumber two_d])
     = Error (ArgError 1 ''expecting nlopt.algorithm'')
         (call base_world [LNumber (Double False 1028 (5 * 2 ^ 48)), LNumber two_d])
   \<and> (\<exists>k msg. create (call base_world [LNumber one_d, LNumber (Double True 1025 (2 ^ 50))])
         = Error (ArgError k msg)
             (call base_world [LNumber one_d, LNumber (Double True 1025 (2 ^ 50))]))
   \<and> create (call (base_world\<lparr>native_memory := 0\<rparr>) [LNumber one_d, LNumber two_d])
     = Error (RuntimeError ''nlopt_create out of memory'')
         (call (base_world\<lparr>native_memory := 0\<rparr>) [LNumber one_d, LNumber two_d])
   \<and> (\<exists>w' opt. create (call base_world [LNumber one_d, LNumber two_d]) = Ok 1 w'
         \<and> results 1 w' = [LUserdata 0] \<and> holder_d_obj (lua w') 0 = Some 0
         \<and> opts w' 0 = Some opt \<and> opt_algorithm opt = 1 \<and> opt_n opt = 2
         \<and> opt_munge_on_destroy opt = Some Munge_on_destroy
         \<and> opt_munge_on_copy opt = Some Munge_on_copy)"
proof -
  let ?w1 = "call base_world [LNumber (Double False 1028 (5 * 2 ^ 48)), LNumber two_d]"
  let ?w2 = "call base_world [LNumber one_d, LNumber (Double True 1025 (2 ^ 50))]"
  let ?w3 = "call (base_world\<lparr>native_memory := 0\<rparr>) [LNumber one_d, LNumber two_d]"
  let ?w4 = "call base_world [LNumber one_d, LNumber two_d]"
  have a1: "luaL_checkinteger (lua ?w1) 1 = Inr 42 \<and> NLOPT_NUM_ALGORITHMS (lib ?w1) = 42"
    by (simp add: call_def base_world_def check_defs)
  have a2: "luaL_checkinteger (lua ?w2) 2 = Inr (- 5)"
    by (simp add: call_def base_world_def check_defs)
  have a3: "luaL_checkinteger (lua ?w3) 1 = Inr 1 \<and> luaL_checkinteger (lua ?w3) 2 = Inr 2
            \<and> NLOPT_NUM_ALGORITHMS (lib ?w3) = 42 \<and> native_memory ?w3 = 0"
    by (simp add: call_def base_world_def check_defs one_d_def two_d_def)
  have a4: "luaL_checkinteger (lua ?w4) 1 = Inr 1 \<and> luaL_checkinteger (lua ?w4) 2 = Inr 2
            \<and> NLOPT_NUM_ALGORITHMS (lib ?w4) = 42 \<and> native_memory ?w4 = 8
            \<and> table_get (heap (lua ?w4)) (LTable registry_addr) (KStr nlopt_metaName) = LTable 1
            \<and> nudata (heap (lua ?w4)) = 0 \<and> nopts ?w4 = 0"
    by (simp add: call_def base_world_def check_defs one_d_def two_d_def table_get_def
        registry_addr_def nlopt_metaName_def)
  have u: "to_unsigned 2 = 2"
    by (simp add: to_unsigned_def)
  show ?thesis
    using create_contract[of ?w1 42 0 0] create_contract[of ?w2 0 "- 5" 0]
      create_contract[of ?w3 1 2 0] create_contract[of ?w4 1 2 1] a1 a2 a3 a4 u
    by auto
qed

subsection \<open>The tolerance argument of a vector constraint\<close>

text \<open>Whenever the fifth argument is a table, the check that should let tables and nil
  pass raises instead.\<close>

lemma add_mconstraint_table_rejected:
  assumes "check (lua w) 1 = Inr u" "luaL_checkinteger (lua w) 2 = Inr m"
    and "lua_type (lua w) 3 = LUA_TFUNCTION" "lua_type (lua w) 5 = LUA_TTABLE"
  shows "add_mconstraint ineq w = Error (ArgError 5 ''expecting table or nil'') w"
  using assms
  by (simp add: add_mconstraint_def Let_def luaL_checktype_def lua_isnil_def lua_istable_def)

lemmas world_defs = call_def base_world_def handle_world_def check_def luaL_checkudata_def
  nlopt_metaName_def luaL_checktype_def luaL_ref_def new_closure_def holder_d_obj_def
  add_constraint_def nlopt_add_inequality_mconstraint_def nlopt_add_equality_mconstraint_def
  to_int_def to_unsigned_def results_def NLOPT_SUCCESS_def NLOPT_INVALID_ARGS_def
  lua_gettable_def lua_settable_def read_vector_def

text \<open>With an explicit nil the closure is registered and attached, and the native status is
  returned. With the argument left out, the index holds no value: the check passes, the
  branch for a table is taken, and reading the first tolerance raises.\<close>

lemma add_mconstraint_nil_tolerance_accepted:
  "\<exists>w'. add_inequality_mconstraint
     (call handle_world [LUserdata 0, LNumber two_d, LFunction 0, LNil, LNil]) = Ok 1 w'
    \<and> results 1 w' = [LNumber one_d]
    \<and> map_option opt_fc (opts w' 0) = Some [\<lparr>c_m = 2, c_f = Mfunc, c_f_data = Some 0, c_tol = None\<rparr>]
    \<and> ctxs w' 0 = Some \<lparr>ref = 1\<rparr>"
  by (simp add: add_inequality_mconstraint_def add_equality_mconstraint_def add_mconstraint_def
      world_defs check_defs lua_defs two_d_def one_d_def cast_num_def compute_floorlog zero_double_def cong: let_weak_cong)

lemma add_mconstraint_absent_tolerance_raises:
  "\<exists>w' e. add_inequality_mconstraint
     (call handle_world [LUserdata 0, LNumber two_d, LFunction 0, LNil]) = Error (RuntimeError e) w'"
  by (simp add: add_inequality_mconstraint_def add_equality_mconstraint_def add_mconstraint_def
      world_defs check_defs lua_defs two_d_def one_d_def upt_0_2 cong: let_weak_cong)
text \<open>
  Claim C6, at a failing input. Both functions are called on the handle of
  \<open>handle_world\<close> with count 2, a callable, nil user data and the sequence
  \<open>{1.0, 2.0}\<close> of length 2 as tolerances. Each raises the argument error for
  argument 5, ``expecting table or nil'', and leaves the world as it was: no closure is
  registered and the native library is not called.
\<close>

theorem add_mconstraint_tolerance_table_rejected:
  "add_inequality_mconstraint
     (call handle_world [LUserdata 0, LNumber two_d, LFunction 0, LNil, LTable 2])
     = Error (ArgError 5 ''expecting table or nil'')
         (call handle_world [LUserdata 0, LNumber two_d, LFunction 0, LNil, LTable 2])
   \<and> add_equality_mconstraint
     (call handle_world [LUserdata 0, LNumber two_d, LFunction 0, LNil, LTable 2])
     = Error (ArgError 5 ''expecting table or nil'')
         (call handle_world [LUserdata 0, LNumber two_d, LFunction 0, LNil, LTable 2])"
  by (simp add: add_inequality_mconstraint_def add_equality_mconstraint_def add_mconstraint_def
      world_defs check_defs lua_defs two_d_def cong: let_weak_cong)

subsection \<open>Integers as table keys\<close>

lemma cast_num_exact:
  assumes "0 < k" "k < 2 ^ 53"
  shows "\<exists>e m. e \<le> 52 \<and> m = nat k * 2 ^ (52 - e) \<and> 2 ^ 52 \<le> m \<and> m < 2 ^ 53
           \<and> cast_num k = Double False (1023 + e) (m - 2 ^ 52)"
proof -
  define a where "a = nat k"
  define e where "e = floorlog 2 a - 1"
  have a0: "0 < a" and a53: "a < 2 ^ 53"
    using assms by (simp_all add: a_def nat_less_iff)
  have fl: "0 < floorlog 2 a"
    using a0 by (simp add: floorlog_def)
  have lo: "2 ^ e \<le> a" and hi: "a < 2 ^ (e + 1)"
    using floorlog_bounds[of a 2] a0 fl by (simp_all add: e_def)
  have e52: "e \<le> 52"
  proof (rule ccontr)
    assume "\<not> e \<le> 52"
    then have "53 \<le> e" by simp
    then have "(2::nat) ^ 53 \<le> 2 ^ e"
      by (intro power_increasing) simp_all
    with lo a53 show False by linarith
  qed
  define m where "m = a * 2 ^ (52 - e)"
  have "2 ^ e * 2 ^ (52 - e) \<le> m"
    unfolding m_def using lo by simp
  then have mlo: "2 ^ 52 \<le> m"
    using e52 by (simp add: power_add[symmetric])
  have "m < 2 ^ (e + 1) * 2 ^ (52 - e)"
    unfolding m_def using hi by simp
  moreover have "(2::nat) ^ (e + 1) * 2 ^ (52 - e) = 2 ^ (e + 1 + (52 - e))"
    by (simp only: power_add)
  moreover have "e + 1 + (52 - e) = 53"
    using e52 by simp
  ultimately have mhi: "m < 2 ^ 53"
    by simp
  have "cast_num k = Double False (1023 + e) (m - 2 ^ 52)"
    using assms(1) e52 mhi unfolding m_def e_def a_def
    by (simp add: cast_num_def Let_def)
  then show ?thesis
    using e52 mlo mhi m_def a_def by blast
qed

lemma double_to_int_cast_num:
  assumes "0 < k" "k < 2 ^ (w - 1)" "k < 2 ^ 53"
  shows "double_to_int w (cast_num k) = k"
proof -
  obtain e m where e: "e \<le> 52" and m: "m = nat k * 2 ^ (52 - e)" and mlo: "2 ^ 52 \<le> m"
    and c: "cast_num k = Double False (1023 + e) (m - 2 ^ 52)"
    using cast_num_exact[OF assms(1,3)] by blast
  have "(2 ^ 52 + (m - 2 ^ 52)) div 2 ^ (1075 - (1023 + e)) = nat k"
    using mlo e by (simp add: m)
  then show ?thesis
    using assms e by (simp add: double_to_int_def c Let_def)
qed

lemma key_of_cast_num:
  assumes "0 < k" "k < 2 ^ 31"
  shows "key_of (LNumber (cast_num k)) = KInt k"
proof -
  have k53: "k < 2 ^ 53" using assms(2) by simp
  then obtain e m where e: "e \<le> 52" and c: "cast_num k = Double False (1023 + e) (m - 2 ^ 52)"
    using cast_num_exact[OF assms(1)] by blast
  have nn: "\<not> is_nan (cast_num k)"
    using e by (simp add: c is_nan_def)
  have "lua_number2int (cast_num k) = k"
    unfolding lua_number2int_def by (rule double_to_int_cast_num) (use assms k53 in simp_all)
  then show ?thesis
    using nn by (simp add: key_of_def luai_numeq_def)
qed

subsection \<open>Reading and writing sequences\<close>

lemma loop_err_snoc:
  "loop_err (xs @ [y]) body s =
     (case loop_err xs body s of Inl e \<Rightarrow> Inl e | Inr s' \<Rightarrow> body y s')"
  by (induction xs arbitrary: s) (simp_all split: sum.split)

lemma pop_push [simp]: "lua_pop (push L v) (Suc 0) = L"
  by (cases L) (simp add: lua_pop_def push_def)

lemma gettable_step:
  assumes "0 < idx" "nat idx \<le> length (stack L)" "stack L ! (nat idx - 1) = LTable tv"
    and "0 < k" "k < 2 ^ 31"
  shows "lua_gettable (lua_pushinteger L k) idx = Inr (push L (tables (heap L) tv (KInt k)))"
proof -
  have i: "index2val (lua_pushinteger L k) idx = LTable tv"
    using assms(1-3) by (simp add: index2val_def index2adr_def nth_append)
  have t: "index2val (lua_pushinteger L k) (- 1) = LNumber (cast_num k)"
    by (rule index2val_top[where st="stack L"]) simp
  show ?thesis
    using assms(4,5) i t
    by (simp add: lua_gettable_def Let_def key_of_cast_num table_get_def lua_pushinteger_def)
qed

lemma tonumber_push [simp]: "lua_tonumber (push L v) (- 1) = tonum L v"
proof -
  have "index2val (push L v) (- 1) = v"
    by (rule index2val_top[where st="stack L"]) simp
  then show ?thesis
    by (simp add: lua_tonumber_def tonum_def luaV_tonumber_def split: lvalue.split)
qed

lemma read_vector_prefix:
  assumes "0 < idx" "nat idx \<le> length (stack L)" "stack L ! (nat idx - 1) = LTable tv"
    and "n < 2 ^ 31" "k \<le> n"
  shows "loop_err [0..<k]
       (\<lambda>i (lb, L).
          case lua_gettable (lua_pushinteger L (int i + 1)) idx of
            Inl e \<Rightarrow> Inl e
          | Inr L \<Rightarrow> Inr (lb[i := lua_tonumber L (- 1)], lua_pop L 1))
       (replicate n zero_double, L)
     = Inr (table_doubles L tv k @ replicate (n - k) zero_double, L)"
  using assms(5)
proof (induction k)
  case 0
  then show ?case by (simp add: table_doubles_def)
next
  case (Suc k)
  have g: "lua_gettable (lua_pushinteger L (int k + 1)) idx
             = Inr (push L (tables (heap L) tv (KInt (int k + 1))))"
    by (rule gettable_step[OF assms(1-3)]) (use Suc.prems assms(4) in simp_all)
  have l: "length (table_doubles L tv k) = k"
    by (simp add: table_doubles_def)
  have "(table_doubles L tv k @ replicate (n - k) zero_double)[k := d]
         = table_doubles L tv k @ d # replicate (n - Suc k) zero_double" for d
  proof -
    have "n - k = Suc (n - Suc k)" using Suc.prems by simp
    then show ?thesis using l by (simp add: list_update_append)
  qed
  then show ?case
    using Suc g by (simp add: loop_err_snoc table_doubles_def)
qed

lemma read_vector_table:
  assumes "0 < idx" "nat idx \<le> length (stack L)" "stack L ! (nat idx - 1) = LTable tv"
    and "n < 2 ^ 31"
  shows "read_vector L idx n = Inr (table_doubles L tv n, L)"
  using read_vector_prefix[OF assms, of n] by (simp add: read_vector_def)

lemma fill_loop_Suc:
  "fill_loop L tidx xs (Suc n)
     = lua_rawseti (lua_pushnumber (fill_loop L tidx xs n) (xs ! n)) tidx (int n + 1)"
  by (simp add: fill_loop_def)

lemma store_doubles_Suc:
  "(store_doubles t xs n)(KInt (int n + 1) := LNumber (xs ! n)) = store_doubles t xs (Suc n)"
  by (auto simp add: store_doubles_def fun_eq_iff split: lkey.split)

lemma store_doubles_0 [simp]: "store_doubles t xs 0 = t"
  by (auto simp add: store_doubles_def fun_eq_iff split: lkey.split)

lemma fill_loop_heap:
  assumes "stack L = st @ [LTable a]"
  shows "heap (fill_loop L (- 2) xs n)
           = (heap L)\<lparr>tables := (tables (heap L))(a := store_doubles (tables (heap L) a) xs n)\<rparr>"
proof (induction n)
  case 0
  then show ?case by (simp add: fill_loop_def)
next
  case (Suc n)
  define L' where "L' = fill_loop L (- 2) xs n"
  have s: "stack (lua_pushnumber L' (xs ! n)) = st @ [LTable a, LNumber (xs ! n)]"
    by (simp add: L'_def lua_pushnumber_def assms)
  have i2: "index2val (lua_pushnumber L' (xs ! n)) (- 2) = LTable a"
    by (rule index2val_top2[OF s])
  have i1: "index2val (lua_pushnumber L' (xs ! n)) (- 1) = LNumber (xs ! n)"
    by (rule index2val_top[where st="st @ [LTable a]"]) (simp add: s)
  have "heap (fill_loop L (- 2) xs (Suc n))
          = table_set (heap L') (LTable a) (KInt (int n + 1)) (LNumber (xs ! n))"
    unfolding fill_loop_Suc L'_def[symmetric]
    by (simp add: lua_rawseti_def Let_def i1 i2) (simp add: lua_pushnumber_def)
  also have "\<dots> = table_set ((heap L)\<lparr>tables := (tables (heap L))
                 (a := store_doubles (tables (heap L) a) xs n)\<rparr>)
               (LTable a) (KInt (int n + 1)) (LNumber (xs ! n))"
    by (simp only: Suc[folded L'_def])
  also have "\<dots> = (heap L)\<lparr>tables := (tables (heap L))
                 (a := store_doubles (tables (heap L) a) xs (Suc n))\<rparr>"
    by (simp add: table_set_def store_doubles_Suc)
  finally show ?case .
qed

lemma to_int_nat: "n < 2 ^ 31 \<Longrightarrow> to_int (int n) = int n"
  by (simp add: to_int_def)

lemma world_lua_id [simp]: "w\<lparr>lua := lua w\<rparr> = w"
  by (cases w) simp

lemma table_doubles_length [simp]: "length (table_doubles L tv n) = n"
  by (simp add: table_doubles_def)

lemma set_vector_ok:
  assumes st: "stack (lua w) = [LUserdata u, LTable tv]"
    and chk: "check (lua w) 1 = Inr u"
    and obj: "holder_d_obj (lua w) u = Some p"
    and opt: "opts w p = Some opt"
    and n: "opt_n opt < 2 ^ 31"
  shows "set_vector which w
     = Ok 1 (w\<lparr>opts := (opts w)(p := Some
                  (put_setting which (table_doubles (lua w) tv (opt_n opt)) opt)),
               lua := lua_pushinteger (lua w) NLOPT_SUCCESS\<rparr>)"
proof -
  have ty: "luaL_checktype (lua w) 2 LUA_TTABLE = Inr ()"
    by (simp add: luaL_checktype_def lua_type_def index2adr_def st)
  have dim: "nlopt_get_dimension (Some p) w = (opt_n opt, w)"
    by (simp add: nlopt_get_dimension_def opt)
  have rv: "read_vector (lua w) 2 (opt_n opt) = Inr (table_doubles (lua w) tv (opt_n opt), lua w)"
    by (rule read_vector_table) (use st n in simp_all)
  show ?thesis
    using n by (simp add: set_vector_def chk ty obj dim to_int_nat rv nlopt_set_vector_def opt)
qed

lemma get_vector_ok:
  assumes st: "stack (lua w) = [LUserdata u]"
    and chk: "check (lua w) 1 = Inr u"
    and obj: "holder_d_obj (lua w) u = Some p"
    and opt: "opts w p = Some opt"
    and n: "opt_n opt < 2 ^ 31"
    and len: "length (get_setting which opt) = opt_n opt"
  shows "\<exists>w'. get_vector which w = Ok 2 w'
     \<and> results 2 w' = [LNumber (cast_num NLOPT_SUCCESS), LTable (ntables (heap (lua w)))]
     \<and> tables (heap (lua w')) (ntables (heap (lua w)))
         = store_doubles empty_table (get_setting which opt) (opt_n opt)"
proof -
  define L1 where "L1 = lua_createtable (lua_pushinteger (lua w) NLOPT_SUCCESS) (int (opt_n opt)) 0"
  have dim: "nlopt_get_dimension (Some p) w = (opt_n opt, w)"
    by (simp add: nlopt_get_dimension_def opt)
  have gv: "nlopt_get_vector which (Some p) (replicate (opt_n opt) zero_double) w
              = (NLOPT_SUCCESS, get_setting which opt, w)"
    by (simp add: nlopt_get_vector_def opt len)
  have s1: "stack L1 = [LUserdata u, LNumber (cast_num NLOPT_SUCCESS)] @ [LTable (ntables (heap (lua w)))]"
    by (simp add: L1_def lua_createtable_def lua_newtable_def Let_def st)
  have h1: "tables (heap L1) (ntables (heap (lua w))) = empty_table"
    by (simp add: L1_def lua_createtable_def lua_newtable_def Let_def)
  have e: "get_vector which w = Ok 2 (w\<lparr>lua := fill_loop L1 (- 2) (get_setting which opt) (opt_n opt)\<rparr>)"
    using n by (simp add: get_vector_def chk obj dim to_int_nat gv Let_def L1_def)
  show ?thesis
    unfolding e
    by (simp add: results_def s1 fill_loop_heap[OF s1] h1)
qed

lemma check_first:
  "stack L \<noteq> [] \<Longrightarrow> stack L' \<noteq> [] \<Longrightarrow> hd (stack L') = hd (stack L) \<Longrightarrow> heap L' = heap L
   \<Longrightarrow> check L' 1 = check L 1"
  by (cases "stack L"; cases "stack L'")
     (simp_all add: check_def luaL_checkudata_def index2val_def index2adr_def split: lvalue.split)

lemma get_put_setting [simp]:
  "get_setting which (put_setting which v opt) = v"
  "opt_n (put_setting which v opt) = opt_n opt"
  by (cases which; simp add: get_setting_def put_setting_def)+

lemma table_doubles_numbers:
  assumes "length v = n" "\<forall>i<n. tables (heap L) tv (KInt (int i + 1)) = LNumber (v ! i)"
  shows "table_doubles L tv n = v"
  using assms
  by (intro nth_equalityI) (simp_all add: table_doubles_def tonum_def luaV_tonumber_def)

lemma store_doubles_lookup:
  "i < n \<Longrightarrow> store_doubles t xs n (KInt (int i + 1)) = LNumber (xs ! i)"
  "(\<forall>i<n. k \<noteq> KInt (int i + 1)) \<Longrightarrow> store_doubles t xs n k = t k"
proof -
  show "i < n \<Longrightarrow> store_doubles t xs n (KInt (int i + 1)) = LNumber (xs ! i)"
    by (simp add: store_doubles_def)
  assume a: "\<forall>i<n. k \<noteq> KInt (int i + 1)"
  show "store_doubles t xs n k = t k"
  proof (cases k)
    case (KInt j)
    have "\<not> (1 \<le> j \<and> j \<le> int n)"
    proof
      assume b: "1 \<le> j \<and> j \<le> int n"
      then have "nat (j - 1) < n" and "j = int (nat (j - 1)) + 1" by auto
      with a KInt show False by blast
    qed
    then show ?thesis using KInt by (auto simp add: store_doubles_def)
  qed (simp_all add: store_doubles_def)
qed

lemma vector_round_trip:
  assumes st: "stack (lua w) = [LUserdata u, LTable tv]"
    and chk: "check (lua w) 1 = Inr u"
    and obj: "holder_d_obj (lua w) u = Some p"
    and opt: "opts w p = Some opt"
    and n: "opt_n opt = length v" "length v < 2 ^ 31"
    and v: "\<forall>i<length v. tables (heap (lua w)) tv (KInt (int i + 1)) = LNumber (v ! i)"
  shows "round_trip (set_vector which) (get_vector which) w u v"
proof -
  define w1 where "w1 = w\<lparr>opts := (opts w)(p := Some (put_setting which v opt)),
               lua := lua_pushinteger (lua w) NLOPT_SUCCESS\<rparr>"
  have td: "table_doubles (lua w) tv (length v) = v"
    by (rule table_doubles_numbers) (use v in simp_all)
  have s: "set_vector which w = Ok 1 w1"
    using set_vector_ok[OF st chk obj opt, of which] n by (simp add: td w1_def)
  let ?wc = "call w1 [LUserdata u]"
  have hc: "heap (lua ?wc) = heap (lua w)"
    by (simp add: call_def w1_def)
  have cst: "stack (lua ?wc) = [LUserdata u]"
    by (simp add: call_def)
  have cchk: "check (lua ?wc) 1 = Inr u"
    using check_first[of "lua w" "lua ?wc"] chk by (simp add: st cst hc)
  have cobj: "holder_d_obj (lua ?wc) u = Some p"
    using obj by (simp add: holder_d_obj_def hc)
  have copt: "opts ?wc p = Some (put_setting which v opt)"
    by (simp add: call_def w1_def)
  obtain w2 where g: "get_vector which ?wc = Ok 2 w2"
    and r: "results 2 w2 = [LNumber (cast_num NLOPT_SUCCESS), LTable (ntables (heap (lua ?wc)))]"
    and t: "tables (heap (lua w2)) (ntables (heap (lua ?wc)))
              = store_doubles empty_table v (length v)"
    using get_vector_ok[OF cst cchk cobj copt, of which] n by auto
  have "\<forall>i<length v. tables (heap (lua w2)) (ntables (heap (lua ?wc))) (KInt (int i + 1)) = LNumber (v ! i)"
    by (simp add: t store_doubles_lookup(1))
  moreover have "\<forall>k. (\<forall>i<length v. k \<noteq> KInt (int i + 1))
        \<longrightarrow> tables (heap (lua w2)) (ntables (heap (lua ?wc))) k = LNil"
    by (simp add: t store_doubles_lookup(2) empty_table_def)
  ultimately show ?thesis
    using s g r by blast
qed

text \<open>
  Claim C9. Let the handle \<open>u\<close> be valid with dimension \<open>length v\<close> (below
  \<open>2^31\<close>, so that it fits the \<open>int\<close> the adapter keeps it in), and let the argument
  be a table whose entries 1 to \<open>length v\<close> are the doubles of \<open>v\<close>. Then
  \<open>set_lower_bounds\<close> followed by \<open>get_lower_bounds\<close> on the same handle returns
  the native status and a new table whose entries 1 to \<open>length v\<close> are exactly the
  doubles of \<open>v\<close> (equal as bit patterns) and which has no other entry; likewise for
  the upper bounds and for the absolute tolerances on the parameters.
\<close>

theorem bounds_round_trip:
  assumes "stack (lua w) = [LUserdata u, LTable tv]"
    and "check (lua w) 1 = Inr u"
    and "holder_d_obj (lua w) u = Some p"
    and "opts w p = Some opt"
    and "opt_n opt = length v" "length v < 2 ^ 31"
    and "\<forall>i<length v. tables (heap (lua w)) tv (KInt (int i + 1)) = LNumber (v ! i)"
  shows "round_trip set_lower_bounds get_lower_bounds w u v
       \<and> round_trip set_upper_bounds get_upper_bounds w u v
       \<and> round_trip set_xtol_abs get_xtol_abs w u v"
  unfolding set_lower_bounds_def get_lower_bounds_def set_upper_bounds_def get_upper_bounds_def
    set_xtol_abs_def get_xtol_abs_def
  using vector_round_trip[OF assms] by blast

theorem bounds_round_trip_witness:
  "stack (lua (call handle_world [LUserdata 0, LTable 2])) = [LUserdata 0, LTable 2]
   \<and> check (lua (call handle_world [LUserdata 0, LTable 2])) 1 = Inr 0
   \<and> holder_d_obj (lua (call handle_world [LUserdata 0, LTable 2])) 0 = Some 0
   \<and> tables (heap (lua (call handle_world [LUserdata 0, LTable 2]))) 2 (KInt 1) = LNumber one_d
   \<and> tables (heap (lua (call handle_world [LUserdata 0, LTable 2]))) 2 (KInt 2) = LNumber two_d
   \<and> (\<exists>w1 w2 a. set_lower_bounds (call handle_world [LUserdata 0, LTable 2]) = Ok 1 w1
        \<and> get_lower_bounds (call w1 [LUserdata 0]) = Ok 2 w2
        \<and> results 2 w2 = [LNumber (cast_num NLOPT_SUCCESS), LTable a]
        \<and> tables (heap (lua w2)) a (KInt 1) = LNumber one_d
        \<and> tables (heap (lua w2)) a (KInt 2) = LNumber two_d
        \<and> tables (heap (lua w2)) a (KInt 3) = LNil)
   \<and> (\<exists>w1 w2 a. set_upper_bounds (call handle_world [LUserdata 0, LTable 2]) = Ok 1 w1
        \<and> get_upper_bounds (call w1 [LUserdata 0]) = Ok 2 w2
        \<and> results 2 w2 = [LNumber (cast_num NLOPT_SUCCESS), LTable a]
        \<and> tables (heap (lua w2)) a (KInt 1) = LNumber one_d
        \<and> tables (heap (lua w2)) a (KInt 2) = LNumber two_d
        \<and> tables (heap (lua w2)) a (KInt 3) = LNil)
   \<and> (\<exists>w1 w2 a. set_xtol_abs (call handle_world [LUserdata 0, LTable 2]) = Ok 1 w1
        \<and> get_xtol_abs (call w1 [LUserdata 0]) = Ok 2 w2
        \<and> results 2 w2 = [LNumber (cast_num NLOPT_SUCCESS), LTable a]
        \<and> tables (heap (lua w2)) a (KInt 1) = LNumber one_d
        \<and> tables (heap (lua w2)) a (KInt 2) = LNumber two_d
        \<and> tables (heap (lua w2)) a (KInt 3) = LNil)"
proof -
  let ?w = "call handle_world [LUserdata 0, LTable 2]"
  have a: "stack (lua ?w) = [LUserdata 0, LTable 2]"
    by (simp add: call_def)
  have b: "check (lua ?w) 1 = Inr 0"
    by (simp add: world_defs lua_defs)
  have c: "holder_d_obj (lua ?w) 0 = Some 0"
    by (simp add: world_defs)
  have d: "opts ?w 0 = Some \<lparr>opt_algorithm = 1, opt_n = 2, opt_f = None, opt_f_data = None,
                      opt_maximize = False,
                      opt_lb = [minus_infinity, minus_infinity],
                      opt_ub = [plus_infinity, plus_infinity], opt_fc = [], opt_h = [],
                      opt_xtol_abs = [zero_double, zero_double],
                      opt_munge_on_destroy = Some Munge_on_destroy,
                      opt_munge_on_copy = Some Munge_on_copy\<rparr>"
    by (simp add: world_defs)
  have e1: "tables (heap (lua ?w)) 2 (KInt 1) = LNumber one_d"
    and e2: "tables (heap (lua ?w)) 2 (KInt 2) = LNumber two_d"
    by (simp_all add: world_defs)
  have e: "\<forall>i<length [one_d, two_d].
         tables (heap (lua ?w)) 2 (KInt (int i + 1)) = LNumber ([one_d, two_d] ! i)"
    using e1 e2 by (simp add: less_Suc_eq)
  have inst: "(\<forall>i<length [one_d, two_d]. t (KInt (int i + 1)) = LNumber ([one_d, two_d] ! i))
      \<and> (\<forall>k. (\<forall>i<length [one_d, two_d]. k \<noteq> KInt (int i + 1)) \<longrightarrow> t k = LNil)
      \<Longrightarrow> t (KInt 1) = LNumber one_d \<and> t (KInt 2) = LNumber two_d \<and> t (KInt 3) = LNil"
    for t :: ltable
  proof -
    assume h: "(\<forall>i<length [one_d, two_d]. t (KInt (int i + 1)) = LNumber ([one_d, two_d] ! i))
      \<and> (\<forall>k. (\<forall>i<length [one_d, two_d]. k \<noteq> KInt (int i + 1)) \<longrightarrow> t k = LNil)"
    then have h1: "\<And>i. i < 2 \<Longrightarrow> t (KInt (int i + 1)) = LNumber ([one_d, two_d] ! i)"
      by simp
    have "t (KInt 1) = LNumber one_d" and "t (KInt 2) = LNumber two_d"
      using h1[of 0] h1[of 1] by simp_all
    moreover have "\<forall>i<length [one_d, two_d]. KInt 3 \<noteq> KInt (int i + 1)"
      by (simp add: less_Suc_eq)
    then have "t (KInt 3) = LNil"
      using h by blast
    ultimately show ?thesis by simp
  qed
  have rt: "round_trip set_lower_bounds get_lower_bounds ?w 0 [one_d, two_d]
       \<and> round_trip set_upper_bounds get_upper_bounds ?w 0 [one_d, two_d]
       \<and> round_trip set_xtol_abs get_xtol_abs ?w 0 [one_d, two_d]"
    by (rule bounds_round_trip[OF a b c d _ _ e]) simp_all
  have pack: "round_trip setter getter ?w 0 [one_d, two_d] \<Longrightarrow>
      \<exists>w1 w2 a. setter ?w = Ok 1 w1 \<and> getter (call w1 [LUserdata 0]) = Ok 2 w2
        \<and> results 2 w2 = [LNumber (cast_num NLOPT_SUCCESS), LTable a]
        \<and> tables (heap (lua w2)) a (KInt 1) = LNumber one_d
        \<and> tables (heap (lua w2)) a (KInt 2) = LNumber two_d
        \<and> tables (heap (lua w2)) a (KInt 3) = LNil" for setter getter
  proof -
    assume "round_trip setter getter ?w 0 [one_d, two_d]"
    then obtain w1 w2 a0 where s: "setter ?w = Ok 1 w1"
      and g: "getter (call w1 [LUserdata 0]) = Ok 2 w2"
      and r: "results 2 w2 = [LNumber (cast_num NLOPT_SUCCESS), LTable a0]"
      and t: "(\<forall>i<length [one_d, two_d]. tables (heap (lua w2)) a0 (KInt (int i + 1))
                  = LNumber ([one_d, two_d] ! i))
            \<and> (\<forall>k. (\<forall>i<length [one_d, two_d]. k \<noteq> KInt (int i + 1))
                  \<longrightarrow> tables (heap (lua w2)) a0 k = LNil)"
      by blast
    show ?thesis
      using s g r inst[OF t] by blast
  qed
  show ?thesis
    using a b c e1 e2
      pack[of set_lower_bounds get_lower_bounds, OF conjunct1[OF rt]]
      pack[of set_upper_bounds get_upper_bounds, OF conjunct1[OF conjunct2[OF rt]]]
      pack[of set_xtol_abs get_xtol_abs, OF conjunct2[OF conjunct2[OF rt]]]
    by (intro conjI)
qed

subsection \<open>The stack across callbacks\<close>

text \<open>\<open>func\<close> leaves the stack as it found it on every path. \<open>mfunc\<close> leaves what
  was on the stack in place, but after a successful call one more value remains on top:
  the results table fetched at the end is never popped. So the native iteration, which
  only calls the trampolines, never disturbs the arguments of the adapter function that
  started it.\<close>

lemma lua_pcall_stack:
  assumes "stack L = st @ fv # args" "length args = nargs" "nargs < 9999"
  shows "\<exists>vs. stack (snd (lua_pcall L nargs nres)) = st @ vs
           \<and> length vs = (if fst (lua_pcall L nargs nres) = 0 then nres else 1)"
proof -
  have "index2val L (- int (Suc nargs)) = (fv # args) ! (length (fv # args) - Suc nargs)"
    by (rule index2val_neg[OF assms(1)]) (use assms in auto)
  moreover have "index2val L (- int nargs - 1) = index2val L (- int (Suc nargs))"
    by (rule arg_cong[where f="index2val L"]) simp
  ultimately have f: "index2val L (- int nargs - 1) = fv"
    using assms(2) by (simp del: of_nat_Suc)
  have tk: "take (length (stack L) - Suc nargs) (stack L) = st"
    using assms by simp
  show ?thesis
    by (cases fv; auto simp add: lua_pcall_def Let_def f tk LUA_ERRRUN_def adjust_results_def
          min_def split: call_result.split)
qed

lemma rawget_stack_any:
  "stack L = st @ [k] \<Longrightarrow> \<exists>v. stack (lua_rawget L t) = st @ [v]"
  by (simp add: lua_rawget_def Let_def)

lemma func_stack [simp]: "stack (snd (snd (func L n x g fd))) = stack L"
proof (cases fd)
  case None
  then show ?thesis by (simp add: func_def)
next
  case (Some ctx)
  define L1 where "L1 = lua_rawgeti L LUA_REGISTRYINDEX (ref ctx)"
  define t where "t = lua_gettop L1"
  define L3 where "L3 = lua_rawget (lua_pushliteral L1 ''f'') t"
  define Lc where "Lc = func_args L3 t n x g"
  obtain v1 where s1: "stack L1 = stack L @ [v1]"
    by (simp add: L1_def lua_rawgeti_def)
  obtain v2 where s3: "stack L3 = stack L @ [v1, v2]"
    using rawget_stack_any[of "lua_pushliteral L1 ''f''" "stack L @ [v1]" "LString ''f''" t]
    by (auto simp add: L3_def s1)
  obtain a b c d where sc: "stack Lc = (stack L @ [v1]) @ v2 # [a, b, c, d]"
    using func_args_stack[of L3 t n x g] by (auto simp add: Lc_def s3)
  obtain status Lr where pc: "lua_pcall Lc 4 (Suc 0) = (status, Lr)"
    by (cases "lua_pcall Lc 4 (Suc 0)")
  obtain r where sr: "stack Lr = (stack L @ [v1]) @ [r]"
    using lua_pcall_stack[OF sc, of 4 "Suc 0"] pc
    by (auto simp add: length_Suc_conv split: if_splits)
  have e: "func L n x g fd =
     (if \<not> lua_isfunction L3 (- 1) then (zero_double, g, lua_pop L3 2)
      else if status = 0 then
        (case g of
           Some gr \<Rightarrow>
             (case read_loop (lua_rawget (lua_pushliteral (lua_pop Lr (Suc 0)) ''grad'') t)
                     (lua_gettop (lua_rawget (lua_pushliteral (lua_pop Lr (Suc 0)) ''grad'') t)) gr n of
                (gr', L') \<Rightarrow> (lua_tonumber Lr (- 1), Some gr', lua_pop (lua_pop L' (Suc 0)) (Suc 0)))
         | None \<Rightarrow> (lua_tonumber Lr (- 1), None, lua_pop (lua_pop Lr (Suc 0)) (Suc 0)))
      else (zero_double, g, lua_pop Lr 2))"
    unfolding Some func_def
    by (simp add: Let_def L1_def[symmetric] t_def[symmetric] L3_def[symmetric]
        Lc_def[symmetric] pc split: option.split prod.split)
  show ?thesis
  proof (cases g)
    case None
    show ?thesis unfolding e using None by (simp add: s3 sr)
  next
    case (Some gr)
    obtain gv where sg: "stack (lua_rawget (lua_pushliteral (lua_pop Lr (Suc 0)) ''grad'') t)
                           = (stack L @ [v1]) @ [gv]"
      using rawget_stack_any[of "lua_pushliteral (lua_pop Lr (Suc 0)) ''grad''" "stack L @ [v1]"
          "LString ''grad''" t]
      by (auto simp add: sr)
    have "stack (snd (read_loop (lua_rawget (lua_pushliteral (lua_pop Lr (Suc 0)) ''grad'') t)
                     (lua_gettop (lua_rawget (lua_pushliteral (lua_pop Lr (Suc 0)) ''grad'') t)) gr n))
            = (stack L @ [v1]) @ [gv]"
      by (simp add: sg)
    then show ?thesis
      unfolding e using Some by (simp add: s3 sr split_beta)
  qed
qed




lemma deref_ctx_lua [simp]: "lua (snd (deref_ctx fd w)) = lua w"
  by (simp add: deref_ctx_def split: option.split)


subsection \<open>Running the optimizer\<close>








subsection \<open>Containment of callback failures\<close>

text \<open>
  Claim C1. Let a closure be registered: the registry holds its record under the context's
  reference and the record's field \<open>f\<close> is a host function. Consider any invocation of
  \<open>func\<close> in which that function raises, that is, it raises on the four arguments and the
  heap that \<open>func\<close> has built when it reaches \<open>lua_pcall\<close>. Then \<open>func\<close> returns to its
  native caller with the scalar result exactly 0.0 and with the gradient buffer it was
  given (present or NULL) unchanged; the Lua stack is as before the call and the heap is
  the one the callable left. \<open>func\<close> is the trampoline of scalar objectives and of scalar
  constraints alike, and its result type has no error.
\<close>

theorem func_error_contained:
  assumes rec: "table_get (heap L) (LTable registry_addr) (KInt (ref ctx)) = LTable a"
    and f: "tables (heap L) a (KStr ''f'') = LFunction fid"
    and raises: "funs L fid (call_arguments (func_call_state L n x grad ctx) 4)
                   (heap (func_call_state L n x grad ctx)) = Raises msg h'"
  shows "\<exists>L'. func L n x grad (Some ctx) = (zero_double, grad, L')
            \<and> stack L' = stack L \<and> heap L' = h'"
proof -
  define L1 where "L1 = lua_rawgeti L LUA_REGISTRYINDEX (ref ctx)"
  define t where "t = lua_gettop L1"
  define L3 where "L3 = lua_rawget (lua_pushliteral L1 ''f'') t"
  define L4 where "L4 = func_args L3 t n x grad"
  have cs: "func_call_state L n x grad ctx = L4"
    by (simp add: func_call_state_def Let_def L1_def t_def L3_def L4_def)
  have s1: "stack L1 = stack L @ [LTable a]" and h1: "heap L1 = heap L"
    by (simp_all add: L1_def lua_rawgeti_def rec)
  have t: "t = int (length (stack L)) + 1"
    by (simp add: t_def lua_gettop_def s1)
  have "index2val (lua_pushliteral L1 ''f'') t = LTable a"
    unfolding t by (rule index2val_first_above[where rest="[LString ''f'']"]) (simp add: lua_pushliteral_def s1)
  then have s3: "stack L3 = stack L @ [LTable a, LFunction fid]"
    by (simp add: L3_def lua_rawget_def lua_pushliteral_def s1 h1 table_get_def f)
  have isf: "lua_isfunction L3 (- 1)"
    using lua_type_top[of L3 "stack L @ [LTable a]" "LFunction fid"] by (simp add: lua_isfunction_def s3)
  obtain vn vx vg vd where s4: "stack L4 = stack L @ [LTable a] @ LFunction fid # [vn, vx, vg, vd]"
    using func_args_stack[of L3 t n x grad] by (auto simp add: L4_def s3)
  have ca: "call_arguments L4 4 = [vn, vx, vg, vd]"
    by (simp add: call_arguments_def s4)
  have fu: "funs L4 = funs L"
    by (simp add: L4_def L3_def lua_rawget_def lua_pushliteral_def L1_def lua_rawgeti_def)
  have r: "funs L4 fid [vn, vx, vg, vd] (heap L4) = Raises msg h'"
    using raises unfolding cs ca fu .
  have pc: "lua_pcall L4 4 1 = (LUA_ERRRUN, L4\<lparr>stack := (stack L @ [LTable a]) @ [msg], heap := h'\<rparr>)"
    by (rule lua_pcall_raises[where args="[vn, vx, vg, vd]"]) (use s4 r in simp_all)
  have "func L n x grad (Some ctx) = (zero_double, grad, lua_pop (L4\<lparr>stack := (stack L @ [LTable a]) @ [msg], heap := h'\<rparr>) 2)"
    using isf pc
    by (simp add: func_def Let_def L1_def[symmetric] t_def[symmetric] L3_def[symmetric] L4_def[symmetric] LUA_ERRRUN_def)
  then show ?thesis by simp
qed

theorem func_error_contained_witness:
  "table_get (heap gradient_only_state) (LTable registry_addr) (KInt (ref \<lparr>ref = 1\<rparr>)) = LTable 1
   \<and> tables (heap gradient_only_state) 1 (KStr ''f'') = LFunction 0
   \<and> funs gradient_only_state 0
       (call_arguments (func_call_state gradient_only_state 2 [one_d, two_d] None \<lparr>ref = 1\<rparr>) 4)
       (heap (func_call_state gradient_only_state 2 [one_d, two_d] None \<lparr>ref = 1\<rparr>))
     = Raises (LString ''no gradient'')
         (heap (func_call_state gradient_only_state 2 [one_d, two_d] None \<lparr>ref = 1\<rparr>))
   \<and> (\<exists>L'. func gradient_only_state 2 [one_d, two_d] None (Some \<lparr>ref = 1\<rparr>)
             = (zero_double, None, L')
           \<and> stack L' = stack gradient_only_state
           \<and> heap L' = heap (func_call_state gradient_only_state 2 [one_d, two_d] None \<lparr>ref = 1\<rparr>))"
proof -
  have a: "table_get (heap gradient_only_state) (LTable registry_addr) (KInt (ref \<lparr>ref = 1\<rparr>)) = LTable 1"
    by (simp add: gradient_only_state_def raising_state_def table_get_def registry_addr_def)
  have b: "tables (heap gradient_only_state) 1 (KStr ''f'') = LFunction 0"
    by (simp add: gradient_only_state_def raising_state_def)
  have c: "funs gradient_only_state 0
       (call_arguments (func_call_state gradient_only_state 2 [one_d, two_d] None \<lparr>ref = 1\<rparr>) 4)
       (heap (func_call_state gradient_only_state 2 [one_d, two_d] None \<lparr>ref = 1\<rparr>))
     = Raises (LString ''no gradient'')
         (heap (func_call_state gradient_only_state 2 [one_d, two_d] None \<lparr>ref = 1\<rparr>))"
    by (simp add: func_call_state_def call_arguments_def func_args_def scratch_table_def
        fill_loop_def no_gradient_def gradient_only_state_def raising_state_def
        gradient_only_def lua_defs Let_def upt_0_2 key_of_def cong: let_weak_cong)
  show ?thesis
    using a b c func_error_contained[OF a b c]
    by simp
qed

end
